theory Spec2Isabelle
  imports Complex_Main "HOL-Library.Log_Nat"
begin

section \<open>The reflected-light phase-curve notebook\<close>

text \<open>
  The program is the notebook \<^verbatim>\<open>docs/notebooks/9g_ReflectedPhaseCurve.ipynb\<close>: a
  straight-line script of code cells.  Cells are numbered as they stand in the file,
  markdown cells included, from 0 (the import cell is cell 1, the last spectrum plot is
  cell 35).  The arrays the notebook computes itself are modelled as nested lists of
  numbers; the calls into the libraries are modelled as events of a trace.

  The arithmetic the notebook writes itself (\<^verbatim>\<open>rand*0.1+0.1\<close>, \<^verbatim>\<open>1-x\<close>,
  \<^verbatim>\<open>0.5 + zeros\<close>, \<^verbatim>\<open>f*1e6\<close>, \<^verbatim>\<open>iphase*180/np.pi\<close>) is binary64 arithmetic and
  is modelled with its rounding, and so is \<^verbatim>\<open>np.linspace\<close>.  The other functions of
  numpy and xarray are modelled by what their documentation says they return.
\<close>

subsection \<open>Python values\<close>

datatype py_error = IndexError | KeyError | NameError | TypeError | LibraryError string

text \<open>
  A Python float literal denotes a binary64 number.  The literals whose decimal text is
  not itself a binary64 number are written as the rationals they denote.
\<close>

definition py_0_01 :: real where
  \<comment> \<open>the literal \<^verbatim>\<open>0.01\<close>\<close>
  "py_0_01 = 5764607523034235 / 2 ^ 59"

definition py_0_00001 :: real where
  \<comment> \<open>the literal \<^verbatim>\<open>.00001\<close>\<close>
  "py_0_00001 = 5902958103587057 / 2 ^ 69"

definition py_0_9 :: real where
  \<comment> \<open>the literal \<^verbatim>\<open>0.9\<close>\<close>
  "py_0_9 = 8106479329266893 / 2 ^ 53"

definition py_0_1 :: real where
  \<comment> \<open>the literal \<^verbatim>\<open>0.1\<close>\<close>
  "py_0_1 = 3602879701896397 / 2 ^ 55"

definition py_0_2 :: real where
  \<comment> \<open>the binary64 number nearest to 0.2, which is twice \<^verbatim>\<open>0.1\<close>\<close>
  "py_0_2 = 3602879701896397 / 2 ^ 54"

definition np_pi :: real where
  \<comment> \<open>\<^verbatim>\<open>np.pi\<close>, the binary64 number nearest to \<open>\<pi>\<close>\<close>
  "np_pi = 884279719003555 / 2 ^ 48"

subsection \<open>Binary64 arithmetic\<close>

text \<open>
  Python floats and numpy's \<^verbatim>\<open>float64\<close> are IEEE 754 binary64 numbers.  A finite
  one is a real number; an arithmetic operation returns the exact result rounded to the
  nearest binary64 number, ties to the even significand.  \<open>fl64\<close> is that rounding:
  a number in the binade \<open>[2^e, 2^(e+1))\<close> is rounded to a multiple of \<open>2^(e-52)\<close>,
  and below \<open>2^(-1022)\<close> to a multiple of \<open>2^(-1074)\<close>.  Overflow to infinity is left
  out: no value of the notebook modelled here comes near \<open>2^1024\<close>.
\<close>

definition binade :: "real \<Rightarrow> int" where
  \<comment> \<open>for \<open>x > 0\<close>, the \<open>e\<close> with \<open>2^e \<le> x < 2^(e+1)\<close>\<close>
  "binade x = (if 1 \<le> x then bitlen \<lfloor>x\<rfloor> - 1 else - bitlen (\<lceil>1 / x\<rceil> - 1))"

definition round_half_even :: "real \<Rightarrow> int" where
  "round_half_even y =
     (let n = \<lfloor>y\<rfloor> in
      if y - of_int n < 1 / 2 then n
      else if 1 / 2 < y - of_int n then n + 1
      else if even n then n else n + 1)"

definition fl64 :: "real \<Rightarrow> real" where
  "fl64 x =
     (if x = 0 then 0
      else let e = max (binade \<bar>x\<bar> - 52) (- 1074)
           in sgn x * of_int (round_half_even (\<bar>x\<bar> / 2 powi e)) * 2 powi e)"

definition py_int :: "real \<Rightarrow> int" where
  \<comment> \<open>\<^verbatim>\<open>int(x)\<close> of a finite float: truncation towards zero\<close>
  "py_int x = (if 0 \<le> x then \<lfloor>x\<rfloor> else \<lceil>x\<rceil>)"

fun str_nat :: "nat \<Rightarrow> string" where
  "str_nat n =
     (if n < 10 then [''0123456789'' ! n]
      else str_nat (n div 10) @ [''0123456789'' ! (n mod 10)])"

definition str_int :: "int \<Rightarrow> string" where
  \<comment> \<open>\<^verbatim>\<open>str(i)\<close> of an integer\<close>
  "str_int i = (if i < 0 then CHR ''-'' # str_nat (nat (- i)) else str_nat (nat i))"

subsection \<open>numpy arrays of rank four\<close>

type_synonym arr4 = "real list list list list"

definition np_zeros4 :: "nat \<Rightarrow> nat \<Rightarrow> nat \<Rightarrow> nat \<Rightarrow> arr4" where
  \<comment> \<open>\<^verbatim>\<open>np.zeros((n1, n2, n3, n4))\<close>\<close>
  "np_zeros4 n1 n2 n3 n4 = replicate n1 (replicate n2 (replicate n3 (replicate n4 0)))"

definition np_where :: "('a \<Rightarrow> bool) \<Rightarrow> 'a list \<Rightarrow> nat list" where
  \<comment> \<open>\<^verbatim>\<open>np.where(cond)[0]\<close> for a rank-one array: the indices where the condition
      holds, in increasing order\<close>
  "np_where P xs = filter (\<lambda>i. P (xs ! i)) [0..<length xs]"

definition scalar_plus4 :: "real \<Rightarrow> arr4 \<Rightarrow> arr4" where
  \<comment> \<open>\<^verbatim>\<open>c + a\<close>, the scalar broadcast over the array, in binary64\<close>
  "scalar_plus4 c a = map (map (map (map (\<lambda>x. fl64 (c + x))))) a"

definition assign_last_axis :: "arr4 \<Rightarrow> nat \<Rightarrow> nat \<Rightarrow> nat \<Rightarrow> real \<Rightarrow> py_error + arr4" where
  \<comment> \<open>\<^verbatim>\<open>a[i, j, k, :] = v\<close>; an index beyond its axis raises IndexError\<close>
  "assign_last_axis a i j k v =
     (if i < length a \<and> j < length (a ! i) \<and> k < length (a ! i ! j)
      then Inr (a[i := (a ! i)[j := (a ! i ! j)[k := replicate (length (a ! i ! j ! k)) v]]])
      else Inl IndexError)"

definition np_linspace :: "real \<Rightarrow> real \<Rightarrow> nat \<Rightarrow> real list" where
  \<comment> \<open>\<^verbatim>\<open>np.linspace(start, stop, num)\<close> with the default \<^verbatim>\<open>endpoint=True\<close>, as
      numpy computes it in binary64: \<^verbatim>\<open>step = (stop - start) / (num - 1)\<close>,
      \<^verbatim>\<open>y = arange(0, num) * step + start\<close>, and the last sample set to
      \<^verbatim>\<open>stop\<close> itself.  (numpy is not part of the repository; its handling of a step
      that underflows to zero is left out.)\<close>
  "np_linspace start stop num =
     (if num = 0 then []
      else if num = 1 then [start]
      else let step = fl64 (fl64 (stop - start) / real (num - 1))
           in map (\<lambda>i. fl64 (fl64 (real i * step) + start)) [0..<num - 1] @ [stop])"

subsection \<open>Cell 24: the synthetic cloud dataset\<close>

record gcm_coords =
  lon :: "real list"
  lat :: "real list"
  pressure :: "real list"

text \<open>
  The three nested \<^verbatim>\<open>for\<close> loops of cell 24, innermost first.  Each takes the
  array and returns it updated, or the error the assignment raised.
\<close>

fun loop_ip :: "arr4 \<Rightarrow> nat \<Rightarrow> nat \<Rightarrow> nat list \<Rightarrow> py_error + arr4" where
  "loop_ip a ilon il [] = Inr a"
| "loop_ip a ilon il (ip # ips) =
     (case assign_last_axis a ilon il ip 10 of
        Inl e \<Rightarrow> Inl e
      | Inr a' \<Rightarrow> loop_ip a' ilon il ips)"

fun loop_ilon :: "arr4 \<Rightarrow> nat \<Rightarrow> nat list \<Rightarrow> nat list \<Rightarrow> py_error + arr4" where
  "loop_ilon a il [] ips = Inr a"
| "loop_ilon a il (ilon # ilons) ips =
     (case loop_ip a ilon il ips of
        Inl e \<Rightarrow> Inl e
      | Inr a' \<Rightarrow> loop_ilon a' il ilons ips)"

fun loop_il :: "arr4 \<Rightarrow> nat list \<Rightarrow> nat list \<Rightarrow> nat list \<Rightarrow> py_error + arr4" where
  "loop_il a [] ilons ips = Inr a"
| "loop_il a (il # ils) ilons ips =
     (case loop_ilon a il ilons ips of
        Inl e \<Rightarrow> Inl e
      | Inr a' \<Rightarrow> loop_il a' ils ilons ips)"

definition cld_pres :: "gcm_coords \<Rightarrow> real list" where
  \<comment> \<open>\<^verbatim>\<open>pres = gcm_out.coords.get('pressure').values[:-1]\<close>\<close>
  "cld_pres g = butlast (pressure g)"

definition wno_grid :: "real list" where
  \<comment> \<open>\<^verbatim>\<open>wno_grid = np.linspace(33333,1e4,10)\<close>\<close>
  "wno_grid = np_linspace 33333 10000 10"

definition where_lat :: "gcm_coords \<Rightarrow> nat list" where
  "where_lat g = np_where (\<lambda>x. x > - 50 \<and> x < 50) (lat g)"

definition where_lon :: "gcm_coords \<Rightarrow> nat list" where
  "where_lon g = np_where (\<lambda>x. x > - 90 \<and> x < 0) (lon g)"

definition where_pres :: "gcm_coords \<Rightarrow> nat list" where
  "where_pres g = np_where (\<lambda>x. x < py_0_01 \<and> x > py_0_00001) (cld_pres g)"

definition cld_shape :: "gcm_coords \<Rightarrow> arr4" where
  \<comment> \<open>\<^verbatim>\<open>np.zeros((len(lon), len(lat),len(pres), len(wno_grid)))\<close>\<close>
  "cld_shape g =
     np_zeros4 (length (lon g)) (length (lat g)) (length (cld_pres g)) (length wno_grid)"

definition fake_opd :: "gcm_coords \<Rightarrow> py_error + arr4" where
  "fake_opd g = loop_il (cld_shape g) (where_lat g) (where_lon g) (where_pres g)"

definition fake_asymmetry_g0 :: "gcm_coords \<Rightarrow> arr4" where
  "fake_asymmetry_g0 g = scalar_plus4 0.5 (cld_shape g)"

definition fake_ssa_w0 :: "gcm_coords \<Rightarrow> arr4" where
  "fake_ssa_w0 g = scalar_plus4 py_0_9 (cld_shape g)"

record cloud_dataset =
  opd :: arr4
  g0 :: arr4
  w0 :: arr4
  cld_lon :: "real list"
  cld_lat :: "real list"
  cld_pressure :: "real list"
  cld_wno :: "real list"

definition ds_cld :: "gcm_coords \<Rightarrow> py_error + cloud_dataset" where
  \<comment> \<open>\<^verbatim>\<open>xr.Dataset(data_vars=dict(opd=..., g0=..., w0=...), coords=dict(lon=...,
      lat=..., pressure=..., wno=...))\<close>: the dataset holds the arrays it is given\<close>
  "ds_cld g =
     (case fake_opd g of
        Inl e \<Rightarrow> Inl e
      | Inr a \<Rightarrow>
          Inr \<lparr> opd = a, g0 = fake_asymmetry_g0 g, w0 = fake_ssa_w0 g,
                cld_lon = lon g, cld_lat = lat g, cld_pressure = cld_pres g,
                cld_wno = wno_grid \<rparr>)"

definition in_box :: "real \<Rightarrow> real \<Rightarrow> real \<Rightarrow> bool" where
  \<comment> \<open>the box of the three \<^verbatim>\<open>np.where\<close> conditions, as a predicate on the
      coordinates of a grid point\<close>
  "in_box x_lon x_lat p =
     ((- 50 < x_lat \<and> x_lat < 50) \<and> (- 90 < x_lon \<and> x_lon < 0) \<and>
      (py_0_00001 < p \<and> p < py_0_01))"

definition shaped :: "nat \<Rightarrow> nat \<Rightarrow> nat \<Rightarrow> nat \<Rightarrow> arr4 \<Rightarrow> bool" where
  \<comment> \<open>the array has shape \<open>(n1, n2, n3, n4)\<close>\<close>
  "shaped n1 n2 n3 n4 a \<longleftrightarrow>
     length a = n1 \<and> (\<forall>i<n1. length (a ! i) = n2 \<and>
       (\<forall>j<n2. length (a ! i ! j) = n3 \<and> (\<forall>k<n3. length (a ! i ! j ! k) = n4)))"

definition gcm_example :: gcm_coords where
  \<comment> \<open>a small grid on which the cells are evaluated\<close>
  "gcm_example =
     \<lparr> lon = [- 100, - 45, 10], lat = [- 60, 0],
       pressure = [1 / 10 ^ 6, 1 / 1000, 1, 10] \<rparr>"

subsection \<open>Cell 6: the synthetic chemistry dataset\<close>

type_synonym arr3 = "real list list list"

text \<open>
  \<^verbatim>\<open>np.random.rand(len(lon), len(lat), len(pres))\<close> draws one binary64 number of
  \<open>[0, 1)\<close> for each grid point (numpy builds it from 53 random bits, \<open>k / 2^53\<close> with
  \<open>k < 2^53\<close>).  The array of draws is the input of the cell.
\<close>

definition fake_chem_H2O :: "arr3 \<Rightarrow> arr3" where
  \<comment> \<open>\<^verbatim>\<open>np.random.rand(...)*0.1+0.1\<close>\<close>
  "fake_chem_H2O draws = map (map (map (\<lambda>r. fl64 (fl64 (r * py_0_1) + py_0_1)))) draws"

definition fake_chem_H2 :: "arr3 \<Rightarrow> arr3" where
  \<comment> \<open>\<^verbatim>\<open>1-fake_chem_H2O\<close>\<close>
  "fake_chem_H2 draws = map (map (map (\<lambda>x. fl64 (1 - x)))) (fake_chem_H2O draws)"

record dataset =
  ds_coords :: gcm_coords
  data_vars :: "string \<rightharpoonup> arr3"


subsection \<open>Cells 9 and 28: the phase grid and the geometry\<close>

record geometry_args =
  calculation :: string
  phase_grid :: "real list"
  num_gangle :: nat
  num_tangle :: nat

definition geometry_cell_9 :: geometry_args where
  \<comment> \<open>\<^verbatim>\<open>n_phases = 8; min_phase = 0; max_phase = 2*np.pi;
      phase_grid = np.linspace(min_phase,max_phase,n_phases);
      case_3d.phase_curve_geometry('reflected', phase_grid=phase_grid, num_gangle=6,
      num_tangle=6)\<close>\<close>
  "geometry_cell_9 =
     (let n_phases = 8; min_phase = 0; max_phase = 2 * np_pi;
          grid = np_linspace min_phase max_phase n_phases
      in \<lparr> calculation = ''reflected'', phase_grid = grid, num_gangle = 6, num_tangle = 6 \<rparr>)"

definition geometry_cell_28 :: geometry_args where
  \<comment> \<open>the same five statements, on \<^verbatim>\<open>case_3d_clouds\<close>\<close>
  "geometry_cell_28 =
     (let n_phases = 8; min_phase = 0; max_phase = 2 * np_pi;
          grid = np_linspace min_phase max_phase n_phases
      in \<lparr> calculation = ''reflected'', phase_grid = grid, num_gangle = 6, num_tangle = 6 \<rparr>)"

subsection \<open>The library calls of the notebook\<close>

text \<open>
  A call event is a call into picaso (\<^verbatim>\<open>jdi\<close>, \<^verbatim>\<open>jpi\<close> and the methods of an
  inputs object), the construction, update or plot of an xarray dataset, or a call of
  matplotlib.  Calls that only build an argument value (numpy arrays, astropy units,
  a colour palette, indexing and attribute reads) are not events: the arrays are modelled
  as values above.
\<close>

datatype callee =
    Output_notebook       \<comment> \<open>\<^verbatim>\<open>jpi.output_notebook\<close>\<close>
  | Opannection           \<comment> \<open>\<^verbatim>\<open>jdi.opannection\<close>\<close>
  | HJ_pt_3d              \<comment> \<open>\<^verbatim>\<open>jdi.HJ_pt_3d\<close>\<close>
  | Dataset               \<comment> \<open>\<^verbatim>\<open>xr.Dataset\<close>, also reached as \<^verbatim>\<open>jdi.xr.Dataset\<close>\<close>
  | Update                \<comment> \<open>\<^verbatim>\<open>Dataset.update\<close>\<close>
  | DataArray_plot        \<comment> \<open>\<^verbatim>\<open>ds[name].isel(...).plot\<close>\<close>
  | Inputs                \<comment> \<open>\<^verbatim>\<open>jdi.inputs\<close>\<close>
  | Phase_curve_geometry
  | Atmosphere_4d
  | Clouds_4d
  | Gravity
  | Star
  | Phase_curve           \<comment> \<open>the method \<^verbatim>\<open>phase_curve\<close> of an inputs object\<close>
  | Jpi_phase_curve       \<comment> \<open>\<^verbatim>\<open>jpi.phase_curve\<close>, the plot of a computed phase curve\<close>
  | Show                  \<comment> \<open>\<^verbatim>\<open>jpi.show\<close>\<close>
  | Mean_regrid           \<comment> \<open>\<^verbatim>\<open>jdi.mean_regrid\<close>\<close>
  | Spectrum              \<comment> \<open>\<^verbatim>\<open>jpi.spectrum\<close>\<close>
  | Plt_figure | Plt_plot | Plt_xlabel | Plt_ylabel | Plt_title | Plt_legend

record call =
  cell :: nat                \<comment> \<open>the cell of the notebook the call stands in\<close>
  callee :: callee
  receiver :: string         \<comment> \<open>the variable whose method is called; empty for a function\<close>
  arguments :: "string list" \<comment> \<open>the variables passed\<close>
  binds :: "string list"     \<comment> \<open>the variables the result is assigned to\<close>
  n_cpu :: "nat option"      \<comment> \<open>the keyword argument \<^verbatim>\<open>n_cpu\<close>, where given\<close>

text \<open>
  The statements of the notebook, as far as they reach a library: a call, a \<^verbatim>\<open>for\<close>
  loop with the number of its iterations, and \<^verbatim>\<open>try: ... except: ...\<close>, which the
  semantics knows and the notebook never writes.
\<close>

datatype stmt =
    Call call
  | For nat "stmt list"
  | Try "stmt list" "stmt list"

definition lib_call :: "nat \<Rightarrow> callee \<Rightarrow> string \<Rightarrow> string list \<Rightarrow> string list \<Rightarrow> stmt" where
  "lib_call c f r as bs =
     Call \<lparr> cell = c, callee = f, receiver = r, arguments = as, binds = bs, n_cpu = None \<rparr>"

definition cell_1 :: "stmt list" where
  "cell_1 = [lib_call 1 Output_notebook [] [] []]"

definition cell_3 :: "stmt list" where
  "cell_3 = [lib_call 3 Opannection [] [] [''opacity'']]"

definition cell_4 :: "stmt list" where
  "cell_4 = [lib_call 4 HJ_pt_3d [] [] [''gcm_out'']]"

definition cell_6 :: "stmt list" where
  "cell_6 =
     [lib_call 6 Dataset [] [''fake_chem_H2O'', ''fake_chem_H2'', ''lon'', ''lat'', ''pres'']
        [''ds_chem''],
      lib_call 6 Update ''gcm_out'' [''ds_chem''] [''all_gcm'']]"

definition cell_7 :: "stmt list" where
  "cell_7 = [lib_call 7 DataArray_plot ''all_gcm'' [] []]"

definition cell_9 :: "stmt list" where
  "cell_9 =
     [lib_call 9 Inputs [] [] [''case_3d''],
      lib_call 9 Phase_curve_geometry ''case_3d'' [''phase_grid''] []]"

definition cell_11 :: "stmt list" where
  "cell_11 = [lib_call 11 Atmosphere_4d ''case_3d'' [''all_gcm''] []]"

definition cell_15 :: "stmt list" where
  "cell_15 =
     [lib_call 15 Gravity ''case_3d'' [] [],
      lib_call 15 Star ''case_3d'' [''opacity''] []]"

definition cell_18 :: "stmt list" where
  \<comment> \<open>\<^verbatim>\<open>allout = case_3d.phase_curve(opacity, n_cpu = 3, full_output=True)\<close>\<close>
  "cell_18 =
     [Call \<lparr> cell = 18, callee = Phase_curve, receiver = ''case_3d'',
             arguments = [''opacity''], binds = [''allout''], n_cpu = Some 3 \<rparr>]"

definition cell_20 :: "stmt list" where
  "cell_20 =
     [lib_call 20 Jpi_phase_curve [] [''allout'', ''to_plot'', ''collapse'']
        [''phases'', ''all_curves'', ''all_ws'', ''fig''],
      lib_call 20 Show [] [''fig''] []]"

definition cell_22 :: "nat \<Rightarrow> stmt list" where
  \<comment> \<open>the loop runs once for each key of \<^verbatim>\<open>allout\<close>\<close>
  "cell_22 n_keys =
     [For n_keys [lib_call 22 Mean_regrid [] [''allout''] [''w'', ''f'']],
      lib_call 22 Spectrum [] [''wno'', ''fpfs'', ''legend''] [],
      lib_call 22 Show [] [] []]"

definition cell_24 :: "stmt list" where
  "cell_24 =
     [lib_call 24 Dataset []
        [''fake_opd'', ''fake_asymmetry_g0'', ''fake_ssa_w0'', ''lon'', ''lat'', ''pres'',
         ''wno_grid'']
        [''ds_cld'']]"

definition cell_26 :: "stmt list" where
  "cell_26 = [lib_call 26 DataArray_plot ''ds_cld'' [] []]"

definition cell_28 :: "stmt list" where
  "cell_28 =
     [lib_call 28 Inputs [] [] [''case_3d_clouds''],
      lib_call 28 Phase_curve_geometry ''case_3d_clouds'' [''phase_grid''] [],
      lib_call 28 Atmosphere_4d ''case_3d_clouds'' [''gcm_out''] [],
      lib_call 28 Clouds_4d ''case_3d_clouds'' [''ds_cld''] []]"

definition cell_30 :: "stmt list" where
  "cell_30 =
     [lib_call 30 Gravity ''case_3d_clouds'' [] [],
      lib_call 30 Star ''case_3d_clouds'' [''opacity''] [],
      Call \<lparr> cell = 30, callee = Phase_curve, receiver = ''case_3d_clouds'',
             arguments = [''opacity''], binds = [''allout_clouds''], n_cpu = Some 3 \<rparr>]"

definition cell_31 :: "stmt list" where
  "cell_31 =
     [lib_call 31 Jpi_phase_curve [] [''allout'', ''to_plot'', ''collapse'']
        [''phases'', ''all_curves'', ''all_ws'', ''fig''],
      lib_call 31 Jpi_phase_curve [] [''allout_clouds'', ''to_plot'', ''collapse'']
        [''phases_clouds'', ''all_curves_clouds'', ''all_ws_clouds'', ''fig_clouds'']]"

definition cell_33 :: "stmt list" where
  "cell_33 =
     [lib_call 33 Plt_figure [] [] [],
      lib_call 33 Plt_plot [] [''phases'', ''all_curves''] [],
      lib_call 33 Plt_plot [] [''phases_clouds'', ''all_curves_clouds''] [],
      lib_call 33 Plt_xlabel [] [] [],
      lib_call 33 Plt_ylabel [] [] [],
      lib_call 33 Plt_title [] [] [],
      lib_call 33 Plt_legend [] [] []]"

definition cell_35 :: "nat \<Rightarrow> stmt list" where
  \<comment> \<open>the loop runs once for each key of \<^verbatim>\<open>allout_clouds\<close>\<close>
  "cell_35 n_keys =
     [For n_keys [lib_call 35 Mean_regrid [] [''allout_clouds''] [''w'', ''f'']],
      lib_call 35 Spectrum [] [''wno'', ''fpfs'', ''legend''] [],
      lib_call 35 Show [] [] []]"

definition notebook :: "nat \<Rightarrow> nat \<Rightarrow> stmt list" where
  \<comment> \<open>the code cells in the order of the file; the parameters are the numbers of keys
      of the two phase-curve results\<close>
  "notebook n n_clouds =
     cell_1 @ cell_3 @ cell_4 @ cell_6 @ cell_7 @ cell_9 @ cell_11 @ cell_15 @ cell_18 @
     cell_20 @ cell_22 n @ cell_24 @ cell_26 @ cell_28 @ cell_30 @ cell_31 @ cell_33 @
     cell_35 n_clouds"

definition notebook_imports :: "string list" where
  \<comment> \<open>the modules imported in cells 1 and 33\<close>
  "notebook_imports =
     [''pandas'', ''numpy'', ''astropy.units'', ''xarray'', ''picaso.justdoit'',
      ''picaso.justplotit'', ''matplotlib.pyplot'']"

definition concurrency_modules :: "string list" where
  \<comment> \<open>the modules of the Python standard library that start threads or processes, lock,
      schedule or cancel\<close>
  "concurrency_modules =
     [''threading'', ''_thread'', ''multiprocessing'', ''concurrent.futures'', ''asyncio'',
      ''subprocess'', ''queue'', ''sched'', ''signal'']"

subsection \<open>Running the statements\<close>

text \<open>
  The libraries are a parameter: a transition function that takes the state of the world
  and a call, and returns the next state or the exception the call raises.  A run carries
  the state and the list of calls made so far; an exception ends it with the state and
  the calls at that moment, unless a \<^verbatim>\<open>try\<close> catches it.
\<close>

type_synonym 's run = "'s \<times> call list"

type_synonym 's outcome = "(py_error \<times> 's run) + 's run"

definition then_do :: "'s outcome \<Rightarrow> ('s run \<Rightarrow> 's outcome) \<Rightarrow> 's outcome" where
  "then_do r f = (case r of Inl err \<Rightarrow> Inl err | Inr st \<Rightarrow> f st)"

fun in_sequence :: "('s run \<Rightarrow> 's outcome) list \<Rightarrow> 's run \<Rightarrow> 's outcome" where
  "in_sequence [] st = Inr st"
| "in_sequence (f # fs) st = then_do (f st) (in_sequence fs)"

fun repeated :: "nat \<Rightarrow> ('s run \<Rightarrow> 's outcome) \<Rightarrow> 's run \<Rightarrow> 's outcome" where
  "repeated 0 f st = Inr st"
| "repeated (Suc n) f st = then_do (f st) (repeated n f)"

definition do_call :: "('s \<Rightarrow> call \<Rightarrow> py_error + 's) \<Rightarrow> call \<Rightarrow> 's run \<Rightarrow> 's outcome" where
  "do_call lib c st =
     (case lib (fst st) c of
        Inl e \<Rightarrow> Inl (e, (fst st, snd st @ [c]))
      | Inr s' \<Rightarrow> Inr (s', snd st @ [c]))"

fun exec :: "('s \<Rightarrow> call \<Rightarrow> py_error + 's) \<Rightarrow> stmt \<Rightarrow> 's run \<Rightarrow> 's outcome" where
  "exec lib (Call c) st = do_call lib c st"
| "exec lib (For n body) st = repeated n (in_sequence (map (exec lib) body)) st"
| "exec lib (Try body handler) st =
     (case in_sequence (map (exec lib) body) st of
        Inl (e, st') \<Rightarrow> in_sequence (map (exec lib) handler) st'
      | Inr st' \<Rightarrow> Inr st')"

definition run_notebook :: "('s \<Rightarrow> call \<Rightarrow> py_error + 's) \<Rightarrow> 's \<Rightarrow> nat \<Rightarrow> nat \<Rightarrow> 's outcome" where
  "run_notebook lib s n n_clouds = in_sequence (map (exec lib) (notebook n n_clouds)) (s, [])"

fun handler_free :: "stmt \<Rightarrow> bool" where
  "handler_free (Call c) = True"
| "handler_free (For n body) = list_all handler_free body"
| "handler_free (Try body handler) = False"

fun calls_of :: "stmt \<Rightarrow> call list" where
  \<comment> \<open>the calls of a statement in the order it makes them when none fails\<close>
  "calls_of (Call c) = [c]"
| "calls_of (For n body) = concat (replicate n (concat (map calls_of body)))"
| "calls_of (Try body handler) = concat (map calls_of body)"

definition trace :: "nat \<Rightarrow> nat \<Rightarrow> call list" where
  "trace n n_clouds = concat (map calls_of (notebook n n_clouds))"

fun run_calls :: "('s \<Rightarrow> call \<Rightarrow> py_error + 's) \<Rightarrow> call list \<Rightarrow> 's run \<Rightarrow> 's outcome" where
  \<comment> \<open>a plain sequence of calls, ended by the first exception\<close>
  "run_calls lib [] st = Inr st"
| "run_calls lib (c # cs) st = then_do (do_call lib c st) (run_calls lib cs)"

definition flaky_library :: "nat \<Rightarrow> call \<Rightarrow> py_error + nat" where
  \<comment> \<open>a library for evaluating a run: it counts the calls and fails in
      \<^verbatim>\<open>atmosphere_4d\<close>\<close>
  "flaky_library s c =
     (if callee c = Atmosphere_4d then Inl (LibraryError ''atmosphere_4d'') else Inr (Suc s))"

subsection \<open>The datasets behind the variables\<close>

text \<open>
  A Python variable holds a reference.  The state maps each variable to its value, which
  is a reference to a dataset, \<^verbatim>\<open>None\<close>, or some other object, and each address to the
  dataset that lives there, so that two names of one dataset are two variables with the
  same address.  It also keeps what each \<^verbatim>\<open>atmosphere_4d\<close> call was passed.  The
  statements of the notebook that are not calls assign arrays, numbers and strings
  (\<^verbatim>\<open>lon\<close>, \<^verbatim>\<open>n_phases\<close>, \<^verbatim>\<open>to_plot\<close>, ...) and none of them assigns a dataset
  variable.
\<close>

datatype pyval = Ref nat | PyNone | Other

record pystate =
  env :: "string \<rightharpoonup> pyval"
  heap :: "nat \<rightharpoonup> dataset"
  next_addr :: nat
  received :: "(string \<times> dataset) list"


definition bind_names :: "string list \<Rightarrow> pyval \<Rightarrow> pystate \<Rightarrow> pystate" where
  \<comment> \<open>\<^verbatim>\<open>x = v\<close>, or \<^verbatim>\<open>x, y, ... = ...\<close> for values of one kind\<close>
  "bind_names xs v st = st\<lparr> env := fold (\<lambda>x e. e(x \<mapsto> v)) xs (env st) \<rparr>"






















subsection \<open>The stages of a phase-curve case\<close>





definition on_object :: "string \<Rightarrow> call list \<Rightarrow> call list" where
  \<comment> \<open>the call that creates the object and the calls of its methods\<close>
  "on_object x tr = filter (\<lambda>c. receiver c = x \<or> x \<in> set (binds c)) tr"



definition regrid_22 :: call where
  \<comment> \<open>the call in the body of the loop of cell 22\<close>
  "regrid_22 =
     \<lparr> cell = 22, callee = Mean_regrid, receiver = [], arguments = [''allout''],
       binds = [''w'', ''f''], n_cpu = None \<rparr>"

definition regrid_35 :: call where
  \<comment> \<open>the call in the body of the loop of cell 35\<close>
  "regrid_35 =
     \<lparr> cell = 35, callee = Mean_regrid, receiver = [], arguments = [''allout_clouds''],
       binds = [''w'', ''f''], n_cpu = None \<rparr>"

subsection \<open>Cells 22 and 35: the spectra of each phase\<close>

type_synonym spectrum = "string \<rightharpoonup> real list"

text \<open>
  A Python dictionary with float keys, in the order of insertion: a list of pairs with
  distinct keys.
\<close>

type_synonym phase_dict = "(real \<times> spectrum) list"

definition phase_curve :: "(real \<Rightarrow> real list \<times> real list) \<Rightarrow> real list \<Rightarrow> phase_dict" where
  \<comment> \<open>Modelled from the spec: the method \<^verbatim>\<open>phase_curve\<close> of picaso's inputs object is
      not in the notebook.  The spec gives its result as "a dictionary of per-phase output
      spectra keyed by phase angle": one entry for each angle of the phase grid, whose
      value holds the wavenumber grid and the reflected flux ratio of that phase.  The
      radiative transfer of one phase is the parameter.\<close>
  "phase_curve spectrum_at grid =
     map (\<lambda>iphase. (iphase, [''wavenumber'' \<mapsto> fst (spectrum_at iphase),
                              ''fpfs_reflected'' \<mapsto> snd (spectrum_at iphase)])) grid"

definition legend_entry :: "real \<Rightarrow> string" where
  \<comment> \<open>\<^verbatim>\<open>str(int(iphase*180/np.pi))\<close>\<close>
  "legend_entry iphase = str_int (py_int (fl64 (fl64 (iphase * 180) / np_pi)))"

fun spectra_loop ::
  "(real list \<Rightarrow> real list \<Rightarrow> real list \<times> real list) \<Rightarrow> phase_dict \<Rightarrow> real list \<Rightarrow>
   real list list \<times> real list list \<times> string list \<Rightarrow>
   py_error + (real list list \<times> real list list \<times> string list)" where
  \<comment> \<open>the body of \<^verbatim>\<open>for iphase in allout.keys():\<close> over the keys still to come;
      \<^verbatim>\<open>jdi.mean_regrid(..., R=100)\<close> is the first parameter\<close>
  "spectra_loop regrid allout [] acc = Inr acc"
| "spectra_loop regrid allout (iphase # keys) (wno, fpfs, legend) =
     (case map_of allout iphase of
        None \<Rightarrow> Inl KeyError
      | Some sp \<Rightarrow>
          (case sp ''wavenumber'' of
             None \<Rightarrow> Inl KeyError
           | Some wn \<Rightarrow>
               (case sp ''fpfs_reflected'' of
                  None \<Rightarrow> Inl KeyError
                | Some fp \<Rightarrow>
                    (case regrid wn fp of
                       (w, f) \<Rightarrow>
                         spectra_loop regrid allout keys
                           (wno @ [w],
                            fpfs @ [map (\<lambda>x. fl64 (x * 1000000)) f],
                            legend @ [legend_entry iphase])))))"

definition phase_spectra ::
  "(real list \<Rightarrow> real list \<Rightarrow> real list \<times> real list) \<Rightarrow> phase_dict \<Rightarrow>
   py_error + (real list list \<times> real list list \<times> string list)" where
  \<comment> \<open>\<^verbatim>\<open>wno =[];fpfs=[];legend=[]\<close> and the loop over \<^verbatim>\<open>allout.keys()\<close>\<close>
  "phase_spectra regrid allout = spectra_loop regrid allout (map fst allout) ([], [], [])"

section \<open>Properties\<close>

subsection \<open>Binary64 rounding\<close>

text \<open>Rules that evaluate \<open>fl64\<close> on a numeral.\<close>

lemma bitlen_numeral: "bitlen (numeral n) = bitlen (numeral n div 2) + 1"
  by (subst compute_bitlen) simp

lemma bitlen_one: "bitlen 1 = 1"
  by (subst compute_bitlen) simp

lemmas fl64_eval = fl64_def binade_def bitlen_numeral bitlen_one round_half_even_def Let_def

text \<open>
  The binade of a positive number holds it; rounding moves a number by half a unit in the
  last place at most, and never across a binary64 number.
\<close>

lemma binade_bounds:
  assumes "0 < x"
  shows "2 powi binade x \<le> x" and "x < 2 powi (binade x + 1)"
proof -
  have "2 powi binade x \<le> x \<and> x < 2 powi (binade x + 1)"
  proof (cases "1 \<le> x")
    case True
    let ?n = "\<lfloor>x\<rfloor>"
    from True have n: "0 < ?n" by linarith
    from bitlen_bounds [OF n]
    have lo: "2 ^ nat (bitlen ?n - 1) \<le> ?n" and hi: "?n < 2 ^ nat (bitlen ?n)" by simp_all
    from n have b1: "1 \<le> bitlen ?n" by (auto simp: bitlen_alt_def)
    have e: "binade x = bitlen ?n - 1" using True by (simp add: binade_def)
    have "(2::real) powi (bitlen ?n - 1) = 2 ^ nat (bitlen ?n - 1)"
      using b1 by (simp add: power_int_nonneg_exp)
    also have "\<dots> = of_int (2 ^ nat (bitlen ?n - 1))" by simp
    also have "\<dots> \<le> of_int ?n" using lo by (simp only: of_int_le_iff)
    also have "\<dots> \<le> x" by simp
    finally have 1: "2 powi binade x \<le> x" by (simp add: e)
    from hi have "?n + 1 \<le> 2 ^ nat (bitlen ?n)" by simp
    then have "(of_int (?n + 1) :: real) \<le> of_int (2 ^ nat (bitlen ?n))"
      by (simp only: of_int_le_iff)
    then have A: "(of_int ?n :: real) + 1 \<le> 2 ^ nat (bitlen ?n)" by simp
    have B: "x < of_int ?n + 1" by linarith
    from A B have "x < 2 ^ nat (bitlen ?n)" by linarith
    also have "\<dots> = 2 powi (bitlen ?n)" using b1 by (simp add: power_int_nonneg_exp)
    finally have 2: "x < 2 powi (binade x + 1)" by (simp add: e)
    from 1 2 show ?thesis by blast
  next
    case False
    let ?c = "\<lceil>1 / x\<rceil>"
    let ?b = "bitlen (?c - 1)"
    from False assms have y: "1 < 1 / x" by simp
    then have c: "0 < ?c - 1" by linarith
    from bitlen_bounds [OF c]
    have lo: "2 ^ nat (?b - 1) \<le> ?c - 1" and hi: "?c - 1 < 2 ^ nat ?b" by simp_all
    from c have b1: "1 \<le> ?b" by (auto simp: bitlen_alt_def)
    have e: "binade x = - ?b" using False by (simp add: binade_def)
    from hi have "?c \<le> 2 ^ nat ?b" by simp
    then have "(of_int ?c :: real) \<le> of_int (2 ^ nat ?b)" by (simp only: of_int_le_iff)
    then have A: "(of_int ?c :: real) \<le> 2 ^ nat ?b" by simp
    have B: "1 / x \<le> of_int ?c" by (rule le_of_int_ceiling)
    from A B have "1 / x \<le> 2 ^ nat ?b" by linarith
    then have "1 \<le> 2 ^ nat ?b * x" using assms by (simp add: field_simps)
    then have "1 / 2 ^ nat ?b \<le> x" by (simp add: field_simps)
    moreover have "(2::real) powi (- ?b) = 1 / 2 ^ nat ?b"
      using b1 by (simp add: power_int_minus_divide power_int_nonneg_exp)
    ultimately have 1: "2 powi binade x \<le> x" by (simp add: e)
    have "(of_int (2 ^ nat (?b - 1)) :: real) \<le> of_int (?c - 1)"
      using lo by (simp only: of_int_le_iff)
    then have C: "(2::real) ^ nat (?b - 1) \<le> of_int ?c - 1" by simp
    have D: "of_int ?c - 1 < 1 / x" by linarith
    from C D have "2 ^ nat (?b - 1) < 1 / x" by linarith
    then have "2 ^ nat (?b - 1) * x < 1" using assms by (simp add: field_simps)
    then have "x < 1 / 2 ^ nat (?b - 1)" by (simp add: field_simps)
    moreover have "(2::real) powi (- ?b + 1) = 1 / 2 ^ nat (?b - 1)"
    proof -
      have "(2::real) powi (- ?b + 1) = 2 powi (- (?b - 1))" by simp
      also have "\<dots> = 1 / 2 powi (?b - 1)" by (rule power_int_minus_divide)
      also have "\<dots> = 1 / 2 ^ nat (?b - 1)" using b1 by (simp add: power_int_nonneg_exp)
      finally show ?thesis .
    qed
    ultimately have 2: "x < 2 powi (binade x + 1)" by (simp add: e)
    from 1 2 show ?thesis by blast
  qed
  then show "2 powi binade x \<le> x" and "x < 2 powi (binade x + 1)" by simp_all
qed

lemma binade_eqI:
  assumes "2 powi e \<le> x" "x < 2 powi (e + 1)"
  shows "binade x = e"
proof -
  have pos: "0 < x"
    using assms(1) zero_less_power_int [of "2::real" e] by linarith
  note b = binade_bounds [OF pos]
  have "(2::real) powi e < 2 powi (binade x + 1)" using assms(1) b(2) by linarith
  then have 1: "e < binade x + 1"
    using power_int_increasing [of "binade x + 1" e "2::real"] by (cases "e < binade x + 1") auto
  have "(2::real) powi binade x < 2 powi (e + 1)" using assms(2) b(1) by linarith
  then have 2: "binade x < e + 1"
    using power_int_increasing [of "e + 1" "binade x" "2::real"] by (cases "binade x < e + 1") auto
  from 1 2 show ?thesis by simp
qed

lemma round_half_even_error: "\<bar>of_int (round_half_even y) - y\<bar> \<le> 1 / 2"
  unfolding round_half_even_def Let_def by (auto; linarith)

lemma round_half_even_le: "y \<le> of_int n \<Longrightarrow> round_half_even y \<le> n"
proof -
  assume a: "y \<le> of_int n"
  show ?thesis
  proof (cases "y = of_int n")
    case True
    then show ?thesis by (simp add: round_half_even_def)
  next
    case False
    with a have "y < of_int n" by simp
    then have "\<lfloor>y\<rfloor> < n" by (simp add: floor_less_iff)
    then show ?thesis
      unfolding round_half_even_def Let_def by auto
  qed
qed

lemma round_half_even_ge: "of_int n \<le> y \<Longrightarrow> n \<le> round_half_even y"
proof -
  assume "of_int n \<le> y"
  then have "n \<le> \<lfloor>y\<rfloor>" by (simp add: le_floor_iff)
  then show ?thesis
    unfolding round_half_even_def Let_def by auto
qed


lemma fl64_pos:
  "0 < x \<Longrightarrow>
   fl64 x = of_int (round_half_even (x / 2 powi max (binade x - 52) (- 1074))) *
              2 powi max (binade x - 52) (- 1074)"
  by (simp add: fl64_def Let_def)

lemma scaled_int:
  assumes "e \<le> q"
  shows "of_int n * 2 powi q / 2 powi e = (of_int (n * 2 ^ nat (q - e)) :: real)"
proof -
  have "(2::real) powi q = 2 powi (q - e) * 2 powi e"
    by (simp flip: power_int_add)
  moreover have "(2::real) powi (q - e) = 2 ^ nat (q - e)"
    using assms by (simp add: power_int_nonneg_exp)
  ultimately show ?thesis by simp
qed

lemma scaled_int_mult:
  assumes "e \<le> q"
  shows "(of_int (n * 2 ^ nat (q - e)) :: real) * 2 powi e = of_int n * 2 powi q"
proof -
  have "(2::real) powi q = 2 powi (q - e) * 2 powi e"
    by (simp flip: power_int_add)
  moreover have "(2::real) powi (q - e) = 2 ^ nat (q - e)"
    using assms by (simp add: power_int_nonneg_exp)
  ultimately show ?thesis by simp
qed

lemma below_binade:
  assumes "\<bar>n\<bar> < 2 ^ 53" "q < binade x - 52"
  shows "of_int n * 2 powi q < (2::real) powi binade x"
proof -
  from assms(1) have "n < 2 ^ 53" by simp
  then have "(of_int n :: real) < of_int (2 ^ 53)"
    by (simp only: of_int_less_iff)
  then have "(of_int n :: real) < 2 ^ 53" by simp
  then have "of_int n * 2 powi q < 2 ^ 53 * (2::real) powi q"
    by (simp add: mult_strict_right_mono)
  also have "\<dots> = 2 powi (53 + q)"
    by (simp add: power_int_add)
  also have "\<dots> \<le> 2 powi binade x"
    using assms(2) by (intro power_int_increasing) simp_all
  finally show ?thesis .
qed

lemma fl64_le:
  assumes "0 \<le> x" "x \<le> of_int n * 2 powi q" "\<bar>n\<bar> < 2 ^ 53" "- 1074 \<le> q"
  shows "fl64 x \<le> of_int n * 2 powi q"
proof (cases "x = 0")
  case True
  with assms(2) show ?thesis by (simp add: fl64_def)
next
  case False
  with assms(1) have pos: "0 < x" by simp
  let ?e = "max (binade x - 52) (- 1074)"
  let ?u = "(2::real) powi ?e"
  have u: "0 < ?u" by simp
  show ?thesis
  proof (cases "?e \<le> q")
    case True
    let ?N = "n * 2 ^ nat (q - ?e)"
    have "x / ?u \<le> of_int n * 2 powi q / ?u"
      using assms(2) u by (simp add: divide_right_mono)
    then have "x / ?u \<le> of_int ?N"
      by (simp only: scaled_int [OF True])
    then have "round_half_even (x / ?u) \<le> ?N"
      by (rule round_half_even_le)
    then have "(of_int (round_half_even (x / ?u)) :: real) \<le> of_int ?N"
      by (simp only: of_int_le_iff)
    then have "of_int (round_half_even (x / ?u)) * ?u \<le> of_int ?N * ?u"
      using u by (simp add: mult_right_mono)
    also have "of_int ?N * ?u = of_int n * 2 powi q"
      by (rule scaled_int_mult [OF True])
    finally show ?thesis
      by (simp only: fl64_pos [OF pos])
  next
    case False
    with assms(4) have "q < binade x - 52" by simp
    from below_binade [OF assms(3) this] binade_bounds(1) [OF pos] assms(2)
    show ?thesis by linarith
  qed
qed

lemma fl64_ge:
  assumes "0 \<le> x" "of_int n * 2 powi q \<le> x" "\<bar>n\<bar> < 2 ^ 53" "- 1074 \<le> q"
  shows "of_int n * 2 powi q \<le> fl64 x"
proof (cases "x = 0")
  case True
  with assms(2) show ?thesis by (simp add: fl64_def)
next
  case False
  with assms(1) have pos: "0 < x" by simp
  let ?e = "max (binade x - 52) (- 1074)"
  let ?u = "(2::real) powi ?e"
  have u: "0 < ?u" by simp
  show ?thesis
  proof (cases "?e \<le> q")
    case True
    let ?N = "n * 2 ^ nat (q - ?e)"
    have "of_int n * 2 powi q / ?u \<le> x / ?u"
      using assms(2) u by (simp add: divide_right_mono)
    then have "of_int ?N \<le> x / ?u"
      by (simp only: scaled_int [OF True])
    then have "?N \<le> round_half_even (x / ?u)"
      by (rule round_half_even_ge)
    then have "(of_int ?N :: real) \<le> of_int (round_half_even (x / ?u))"
      by (simp only: of_int_le_iff)
    then have "of_int ?N * ?u \<le> of_int (round_half_even (x / ?u)) * ?u"
      using u by (simp add: mult_right_mono)
    moreover have "of_int ?N * ?u = of_int n * 2 powi q"
      by (rule scaled_int_mult [OF True])
    ultimately show ?thesis
      by (simp only: fl64_pos [OF pos])
  next
    case False
    with assms(4) have q: "q < binade x - 52" and e: "?e = binade x - 52" by simp_all
    have "(2::real) powi binade x / ?u = of_int (2 ^ 52)"
      using scaled_int [of "binade x - 52" "binade x" 1] by (simp add: e)
    moreover have "2 powi binade x / ?u \<le> x / ?u"
      using binade_bounds(1) [OF pos] u by (simp add: divide_right_mono)
    ultimately have "of_int (2 ^ 52) \<le> x / ?u" by simp
    then have "2 ^ 52 \<le> round_half_even (x / ?u)"
      by (rule round_half_even_ge)
    then have "(of_int (2 ^ 52) :: real) \<le> of_int (round_half_even (x / ?u))"
      by (simp only: of_int_le_iff)
    then have "of_int (2 ^ 52) * ?u \<le> of_int (round_half_even (x / ?u)) * ?u"
      using u by (simp add: mult_right_mono)
    moreover have "of_int (2 ^ 52) * ?u = (2::real) powi binade x"
      by (simp add: e power_int_diff)
    ultimately have "2 powi binade x \<le> fl64 x"
      by (simp only: fl64_pos [OF pos])
    with below_binade [OF assms(3) q] show ?thesis by linarith
  qed
qed

lemma fl64_error:
  assumes "0 < x"
  shows "\<bar>fl64 x - x\<bar> \<le> 2 powi max (binade x - 52) (- 1074) / 2"
proof -
  let ?u = "(2::real) powi max (binade x - 52) (- 1074)"
  have u: "0 < ?u" by simp
  have "fl64 x - x = (of_int (round_half_even (x / ?u)) - x / ?u) * ?u"
    using u by (simp add: fl64_pos [OF assms] field_simps)
  then have "\<bar>fl64 x - x\<bar> = \<bar>of_int (round_half_even (x / ?u)) - x / ?u\<bar> * ?u"
    using u by (simp add: abs_mult)
  also have "\<dots> \<le> 1 / 2 * ?u"
    using round_half_even_error [of "x / ?u"] u by (intro mult_right_mono) simp_all
  finally show ?thesis by simp
qed


lemma round_half_even_above:
  assumes "of_int n \<le> y" "y < of_int n + 1 / 2"
  shows "round_half_even y = n"
proof -
  have "\<lfloor>y\<rfloor> = n" using assms by linarith
  then show ?thesis
    using assms by (simp add: round_half_even_def)
qed

lemma round_half_even_below:
  assumes "of_int n - 1 / 2 \<le> y" "y < of_int n" "even n"
  shows "round_half_even y = n"
proof -
  have f: "\<lfloor>y\<rfloor> = n - 1" using assms by linarith
  have "odd (n - 1)" using assms(3) by simp
  moreover have "\<not> y - of_int (n - 1) < 1 / 2" using assms(1) by simp
  ultimately show ?thesis
    unfolding round_half_even_def f Let_def by simp
qed

lemma fl64_near_one:
  assumes "\<bar>s - 1\<bar> \<le> 1 / 2 ^ 54"
  shows "fl64 s = 1"
proof (cases "1 \<le> s")
  case True
  with assms have s: "1 \<le> s" "s \<le> 1 + 1 / 2 ^ 54" by simp_all
  then have pos: "0 < s" by simp
  have "binade s = 0"
    using s by (intro binade_eqI) simp_all
  then have e: "max (binade s - 52) (- 1074) = - 52" by simp
  have u: "(2::real) powi (- 52) = 1 / 2 ^ 52"
    by (simp add: power_int_minus_divide)
  have "round_half_even (s / (1 / 2 ^ 52)) = 2 ^ 52"
    using s by (intro round_half_even_above) (simp_all add: field_simps)
  then show ?thesis
    by (simp add: fl64_pos [OF pos] e u)
next
  case False
  with assms have s: "1 - 1 / 2 ^ 54 \<le> s" "s < 1" by simp_all
  then have pos: "0 < s" by simp
  have "binade s = - 1"
    using s by (intro binade_eqI) (simp_all add: power_int_minus_divide)
  then have e: "max (binade s - 52) (- 1074) = - 53" by simp
  have u: "(2::real) powi (- 53) = 1 / 2 ^ 53"
    by (simp add: power_int_minus_divide)
  have "round_half_even (s / (1 / 2 ^ 53)) = 2 ^ 53"
    using s by (intro round_half_even_below) (simp_all add: field_simps)
  then show ?thesis
    by (simp add: fl64_pos [OF pos] e u)
qed

lemma py_0_1_repr: "py_0_1 = of_int 3602879701896397 * 2 powi (- 55)"
  by (simp add: py_0_1_def power_int_minus_divide)

lemma py_0_2_repr: "py_0_2 = of_int 3602879701896397 * 2 powi (- 54)"
  by (simp add: py_0_2_def power_int_minus_divide)

lemma h2o_bounds:
  assumes "0 \<le> r" "r < 1"
  shows "py_0_1 \<le> fl64 (fl64 (r * py_0_1) + py_0_1)"
    and "fl64 (fl64 (r * py_0_1) + py_0_1) \<le> py_0_2"
proof -
  let ?p = "fl64 (r * py_0_1)"
  have pos: "0 < py_0_1" by (simp add: py_0_1_def)
  have x0: "0 \<le> r * py_0_1" using assms(1) pos by simp
  have "r * py_0_1 \<le> py_0_1" using assms(2) pos by simp
  then have "r * py_0_1 \<le> of_int 3602879701896397 * 2 powi (- 55)"
    by (simp only: py_0_1_repr)
  from fl64_le [OF x0 this] have p1: "?p \<le> py_0_1"
    by (simp add: py_0_1_repr)
  have "of_int 0 * 2 powi 0 \<le> r * py_0_1" using x0 by simp
  from fl64_ge [OF x0 this] have p0: "0 \<le> ?p" by simp
  have y0: "0 \<le> ?p + py_0_1" using p0 pos by simp
  have "of_int 3602879701896397 * 2 powi (- 55) \<le> ?p + py_0_1"
    using p0 by (simp add: py_0_1_repr)
  from fl64_ge [OF y0 this] show "py_0_1 \<le> fl64 (?p + py_0_1)"
    by (simp add: py_0_1_repr)
  have "py_0_1 + py_0_1 = py_0_2" by (simp add: py_0_1_def py_0_2_def)
  with p1 have "?p + py_0_1 \<le> py_0_2" by linarith
  then have "?p + py_0_1 \<le> of_int 3602879701896397 * 2 powi (- 54)"
    by (simp only: py_0_2_repr)
  from fl64_le [OF y0 this] show "fl64 (?p + py_0_1) \<le> py_0_2"
    by (simp add: py_0_2_repr)
qed

lemma h2_sum:
  assumes "py_0_1 \<le> h" "h \<le> py_0_2"
  shows "\<bar>h + fl64 (1 - h) - 1\<bar> \<le> 1 / 2 ^ 54" and "fl64 (h + fl64 (1 - h)) = 1"
proof -
  have x: "1 / 2 \<le> 1 - h" "1 - h < 1"
    using assms by (simp_all add: py_0_1_def py_0_2_def)
  then have pos: "0 < 1 - h" by simp
  have "binade (1 - h) = - 1"
    using x by (intro binade_eqI) (simp_all add: power_int_minus_divide)
  then have e: "max (binade (1 - h) - 52) (- 1074) = - 53" by simp
  have "\<bar>fl64 (1 - h) - (1 - h)\<bar> \<le> 2 powi (- 53) / 2"
    using fl64_error [OF pos] by (simp only: e)
  also have "\<dots> = 1 / 2 ^ 54" by (simp add: power_int_minus_divide)
  finally show 1: "\<bar>h + fl64 (1 - h) - 1\<bar> \<le> 1 / 2 ^ 54"
    by (simp add: algebra_simps)
  from fl64_near_one [OF 1] show "fl64 (h + fl64 (1 - h)) = 1" .
qed

subsection \<open>The chemistry dataset\<close>

lemma fake_chem_H2O_nth:
  "i < length draws \<Longrightarrow> j < length (draws ! i) \<Longrightarrow> k < length (draws ! i ! j) \<Longrightarrow>
   fake_chem_H2O draws ! i ! j ! k = fl64 (fl64 (draws ! i ! j ! k * py_0_1) + py_0_1)"
  by (simp add: fake_chem_H2O_def)

lemma fake_chem_H2_nth:
  "i < length draws \<Longrightarrow> j < length (draws ! i) \<Longrightarrow> k < length (draws ! i ! j) \<Longrightarrow>
   fake_chem_H2 draws ! i ! j ! k = fl64 (1 - fake_chem_H2O draws ! i ! j ! k)"
  by (simp add: fake_chem_H2_def fake_chem_H2O_def)

text \<open>
  Claim C3, as amended.  At every grid point, for every draw \<open>r\<close> with \<open>0 \<le> r < 1\<close>,
  the H2O mixing ratio lies in the closed interval from the float \<^verbatim>\<open>0.1\<close> to the
  float \<^verbatim>\<open>0.2\<close>, the H2 mixing ratio is \<open>1 - H2O\<close> rounded to binary64, the two
  add up to 1 within \<open>2^(-54)\<close>, and their binary64 sum is exactly 1.
\<close>

theorem chem_mixing_ratios:
  assumes "i < length draws" "j < length (draws ! i)" "k < length (draws ! i ! j)"
    and "0 \<le> draws ! i ! j ! k" "draws ! i ! j ! k < 1"
  shows "py_0_1 \<le> fake_chem_H2O draws ! i ! j ! k \<and>
         fake_chem_H2O draws ! i ! j ! k \<le> py_0_2 \<and>
         fake_chem_H2 draws ! i ! j ! k = fl64 (1 - fake_chem_H2O draws ! i ! j ! k) \<and>
         \<bar>fake_chem_H2O draws ! i ! j ! k + fake_chem_H2 draws ! i ! j ! k - 1\<bar> \<le> 1 / 2 ^ 54 \<and>
         fl64 (fake_chem_H2O draws ! i ! j ! k + fake_chem_H2 draws ! i ! j ! k) = 1"
proof -
  let ?h = "fake_chem_H2O draws ! i ! j ! k"
  note h = fake_chem_H2O_nth [OF assms(1-3)]
  note g = fake_chem_H2_nth [OF assms(1-3)]
  from h2o_bounds [OF assms(4,5)] have b: "py_0_1 \<le> ?h" "?h \<le> py_0_2"
    by (simp_all only: h)
  from h2_sum [OF b] show ?thesis
    using b g by simp
qed

theorem chem_mixing_ratios_witness:
  "fake_chem_H2O [[[1 / 2]]] ! 0 ! 0 ! 0 = 1351079888211149 / 2 ^ 53 \<and>
   fake_chem_H2 [[[1 / 2]]] ! 0 ! 0 ! 0 = 7656119366529843 / 2 ^ 53 \<and>
   py_0_1 \<le> fake_chem_H2O [[[1 / 2]]] ! 0 ! 0 ! 0 \<and>
   fake_chem_H2O [[[1 / 2]]] ! 0 ! 0 ! 0 \<le> py_0_2 \<and>
   fl64 (fake_chem_H2O [[[1 / 2]]] ! 0 ! 0 ! 0 + fake_chem_H2 [[[1 / 2]]] ! 0 ! 0 ! 0) = 1"
proof -
  have h: "fake_chem_H2O [[[1 / 2]]] ! 0 ! 0 ! 0 = 1351079888211149 / 2 ^ 53"
    by (simp add: fake_chem_H2O_def py_0_1_def fl64_eval)
  have g: "fake_chem_H2 [[[1 / 2]]] ! 0 ! 0 ! 0 = 7656119366529843 / 2 ^ 53"
    by (simp add: fake_chem_H2_def h [unfolded fake_chem_H2O_def, simplified] fake_chem_H2O_def py_0_1_def fl64_eval)
  have "py_0_1 \<le> fake_chem_H2O [[[1 / 2]]] ! 0 ! 0 ! 0 \<and>
         fake_chem_H2O [[[1 / 2]]] ! 0 ! 0 ! 0 \<le> py_0_2 \<and>
         fake_chem_H2 [[[1 / 2]]] ! 0 ! 0 ! 0 = fl64 (1 - fake_chem_H2O [[[1 / 2]]] ! 0 ! 0 ! 0) \<and>
         \<bar>fake_chem_H2O [[[1 / 2]]] ! 0 ! 0 ! 0 + fake_chem_H2 [[[1 / 2]]] ! 0 ! 0 ! 0 - 1\<bar> \<le> 1 / 2 ^ 54 \<and>
         fl64 (fake_chem_H2O [[[1 / 2]]] ! 0 ! 0 ! 0 + fake_chem_H2 [[[1 / 2]]] ! 0 ! 0 ! 0) = 1"
    by (rule chem_mixing_ratios) simp_all
  with h g show ?thesis by blast
qed

text \<open>
  The claim as it was stated fails: the largest draw, \<open>1 - 2^(-53)\<close>, gives an H2O
  mixing ratio that is the float \<^verbatim>\<open>0.2\<close> and not below 0.2, and at the draw 0 the
  stored H2 is not \<open>1 - H2O\<close>, the difference having been rounded.
\<close>

theorem chem_mixing_ratios_counterexample:
  "\<not> (fake_chem_H2O [[[1 - 1 / 2 ^ 53]]] ! 0 ! 0 ! 0 < 2 / 10) \<and>
   fake_chem_H2 [[[0]]] ! 0 ! 0 ! 0 \<noteq> 1 - fake_chem_H2O [[[0]]] ! 0 ! 0 ! 0"
proof -
  have "fake_chem_H2O [[[1 - 1 / 2 ^ 53]]] ! 0 ! 0 ! 0 = py_0_2"
    by (simp add: fake_chem_H2O_def py_0_1_def py_0_2_def fl64_eval)
  moreover have "\<not> py_0_2 < 2 / 10"
    by (simp add: py_0_2_def)
  moreover have "fake_chem_H2O [[[0]]] ! 0 ! 0 ! 0 = py_0_1"
    by (simp add: fake_chem_H2O_def py_0_1_def fl64_eval)
  moreover have "fake_chem_H2 [[[0]]] ! 0 ! 0 ! 0 = py_0_9"
    by (simp add: fake_chem_H2_def fake_chem_H2O_def py_0_1_def py_0_9_def fl64_eval)
  moreover have "py_0_9 \<noteq> 1 - py_0_1"
    by (simp add: py_0_9_def py_0_1_def)
  ultimately show ?thesis by simp
qed

subsection \<open>The cloud dataset\<close>

lemma shaped_zeros: "shaped n1 n2 n3 n4 (np_zeros4 n1 n2 n3 n4)"
  by (simp add: shaped_def np_zeros4_def)

lemma zeros_nth:
  "i < n1 \<Longrightarrow> j < n2 \<Longrightarrow> k < n3 \<Longrightarrow> w < n4 \<Longrightarrow> np_zeros4 n1 n2 n3 n4 ! i ! j ! k ! w = 0"
  by (simp add: np_zeros4_def)

lemma scalar_plus4_nth:
  "shaped n1 n2 n3 n4 a \<Longrightarrow> i < n1 \<Longrightarrow> j < n2 \<Longrightarrow> k < n3 \<Longrightarrow> w < n4 \<Longrightarrow>
   scalar_plus4 c a ! i ! j ! k ! w = fl64 (c + a ! i ! j ! k ! w)"
  by (simp add: scalar_plus4_def shaped_def)

lemma fl64_literals: "fl64 (1 / 2) = 1 / 2" "fl64 py_0_9 = py_0_9"
  by (simp_all add: py_0_9_def fl64_eval)

lemma assign_last_axis_shaped:
  assumes "shaped n1 n2 n3 n4 a" "i < n1" "j < n2" "k < n3"
  shows "\<exists>a'. assign_last_axis a i j k v = Inr a' \<and> shaped n1 n2 n3 n4 a' \<and>
           (\<forall>i' j' k' w. i' < n1 \<longrightarrow> j' < n2 \<longrightarrow> k' < n3 \<longrightarrow> w < n4 \<longrightarrow>
              a' ! i' ! j' ! k' ! w = (if i' = i \<and> j' = j \<and> k' = k then v else a ! i' ! j' ! k' ! w))"
  using assms
  by (auto simp: assign_last_axis_def shaped_def nth_list_update)

lemma loop_ip_shaped:
  assumes "shaped n1 n2 n3 n4 a" "ilon < n1" "il < n2" "\<forall>ip\<in>set ips. ip < n3"
  shows "\<exists>a'. loop_ip a ilon il ips = Inr a' \<and> shaped n1 n2 n3 n4 a' \<and>
           (\<forall>i j k w. i < n1 \<longrightarrow> j < n2 \<longrightarrow> k < n3 \<longrightarrow> w < n4 \<longrightarrow>
              a' ! i ! j ! k ! w = (if i = ilon \<and> j = il \<and> k \<in> set ips then 10 else a ! i ! j ! k ! w))"
  using assms
proof (induction ips arbitrary: a)
  case Nil
  then show ?case by simp
next
  case (Cons ip ips)
  from Cons.prems have ip: "ip < n3" and rest: "\<forall>ip\<in>set ips. ip < n3" by simp_all
  from assign_last_axis_shaped [OF Cons.prems(1) Cons.prems(2) Cons.prems(3) ip, of 10]
  obtain a1 where a1: "assign_last_axis a ilon il ip 10 = Inr a1" "shaped n1 n2 n3 n4 a1"
    and v1: "\<And>i' j' k' w. i' < n1 \<Longrightarrow> j' < n2 \<Longrightarrow> k' < n3 \<Longrightarrow> w < n4 \<Longrightarrow>
              a1 ! i' ! j' ! k' ! w = (if i' = ilon \<and> j' = il \<and> k' = ip then 10 else a ! i' ! j' ! k' ! w)"
    by blast
  from Cons.IH [OF a1(2) Cons.prems(2) Cons.prems(3) rest]
  obtain a2 where a2: "loop_ip a1 ilon il ips = Inr a2" "shaped n1 n2 n3 n4 a2"
    and v2: "\<And>i j k w. i < n1 \<Longrightarrow> j < n2 \<Longrightarrow> k < n3 \<Longrightarrow> w < n4 \<Longrightarrow>
              a2 ! i ! j ! k ! w = (if i = ilon \<and> j = il \<and> k \<in> set ips then 10 else a1 ! i ! j ! k ! w)"
    by blast
  show ?case
    using a1 a2 by (auto simp: v1 v2)
qed

lemma loop_ilon_shaped:
  assumes "shaped n1 n2 n3 n4 a" "il < n2" "\<forall>ilon\<in>set ilons. ilon < n1" "\<forall>ip\<in>set ips. ip < n3"
  shows "\<exists>a'. loop_ilon a il ilons ips = Inr a' \<and> shaped n1 n2 n3 n4 a' \<and>
           (\<forall>i j k w. i < n1 \<longrightarrow> j < n2 \<longrightarrow> k < n3 \<longrightarrow> w < n4 \<longrightarrow>
              a' ! i ! j ! k ! w = (if i \<in> set ilons \<and> j = il \<and> k \<in> set ips then 10 else a ! i ! j ! k ! w))"
  using assms
proof (induction ilons arbitrary: a)
  case Nil
  then show ?case by simp
next
  case (Cons ilon ilons)
  from Cons.prems have h: "ilon < n1" and rest: "\<forall>ilon\<in>set ilons. ilon < n1" by simp_all
  from loop_ip_shaped [OF Cons.prems(1) h Cons.prems(2) Cons.prems(4)]
  obtain a1 where a1: "loop_ip a ilon il ips = Inr a1" "shaped n1 n2 n3 n4 a1"
    and v1: "\<And>i j k w. i < n1 \<Longrightarrow> j < n2 \<Longrightarrow> k < n3 \<Longrightarrow> w < n4 \<Longrightarrow>
              a1 ! i ! j ! k ! w = (if i = ilon \<and> j = il \<and> k \<in> set ips then 10 else a ! i ! j ! k ! w)"
    by blast
  from Cons.IH [OF a1(2) Cons.prems(2) rest Cons.prems(4)]
  obtain a2 where a2: "loop_ilon a1 il ilons ips = Inr a2" "shaped n1 n2 n3 n4 a2"
    and v2: "\<And>i j k w. i < n1 \<Longrightarrow> j < n2 \<Longrightarrow> k < n3 \<Longrightarrow> w < n4 \<Longrightarrow>
              a2 ! i ! j ! k ! w = (if i \<in> set ilons \<and> j = il \<and> k \<in> set ips then 10 else a1 ! i ! j ! k ! w)"
    by blast
  show ?case
    using a1 a2 by (auto simp: v1 v2)
qed

lemma loop_il_shaped:
  assumes "shaped n1 n2 n3 n4 a" "\<forall>il\<in>set ils. il < n2" "\<forall>ilon\<in>set ilons. ilon < n1" "\<forall>ip\<in>set ips. ip < n3"
  shows "\<exists>a'. loop_il a ils ilons ips = Inr a' \<and> shaped n1 n2 n3 n4 a' \<and>
           (\<forall>i j k w. i < n1 \<longrightarrow> j < n2 \<longrightarrow> k < n3 \<longrightarrow> w < n4 \<longrightarrow>
              a' ! i ! j ! k ! w = (if i \<in> set ilons \<and> j \<in> set ils \<and> k \<in> set ips then 10 else a ! i ! j ! k ! w))"
  using assms
proof (induction ils arbitrary: a)
  case Nil
  then show ?case by simp
next
  case (Cons il ils)
  from Cons.prems have h: "il < n2" and rest: "\<forall>il\<in>set ils. il < n2" by simp_all
  from loop_ilon_shaped [OF Cons.prems(1) h Cons.prems(3) Cons.prems(4)]
  obtain a1 where a1: "loop_ilon a il ilons ips = Inr a1" "shaped n1 n2 n3 n4 a1"
    and v1: "\<And>i j k w. i < n1 \<Longrightarrow> j < n2 \<Longrightarrow> k < n3 \<Longrightarrow> w < n4 \<Longrightarrow>
              a1 ! i ! j ! k ! w = (if i \<in> set ilons \<and> j = il \<and> k \<in> set ips then 10 else a ! i ! j ! k ! w)"
    by blast
  from Cons.IH [OF a1(2) rest Cons.prems(3) Cons.prems(4)]
  obtain a2 where a2: "loop_il a1 ils ilons ips = Inr a2" "shaped n1 n2 n3 n4 a2"
    and v2: "\<And>i j k w. i < n1 \<Longrightarrow> j < n2 \<Longrightarrow> k < n3 \<Longrightarrow> w < n4 \<Longrightarrow>
              a2 ! i ! j ! k ! w = (if i \<in> set ilons \<and> j \<in> set ils \<and> k \<in> set ips then 10 else a1 ! i ! j ! k ! w)"
    by blast
  show ?case
    using a1 a2 by (auto simp: v1 v2)
qed

lemma set_np_where: "set (np_where P xs) = {i. i < length xs \<and> P (xs ! i)}"
  by (auto simp: np_where_def)

lemma length_wno_grid: "length wno_grid = 10"
  by (simp add: wno_grid_def np_linspace_def)

lemma fake_opd_box:
  "\<exists>a. fake_opd g = Inr a \<and>
     (\<forall>i j k w. i < length (lon g) \<longrightarrow> j < length (lat g) \<longrightarrow>
          k < length (cld_pres g) \<longrightarrow> w < length wno_grid \<longrightarrow>
        a ! i ! j ! k ! w =
          (if in_box (lon g ! i) (lat g ! j) (cld_pres g ! k) then 10 else 0))"
proof -
  let ?n1 = "length (lon g)" and ?n2 = "length (lat g)" and ?n3 = "length (cld_pres g)"
    and ?n4 = "length wno_grid"
  have sh: "shaped ?n1 ?n2 ?n3 ?n4 (cld_shape g)"
    by (simp add: cld_shape_def shaped_zeros)
  have b1: "\<forall>il\<in>set (where_lat g). il < ?n2"
    and b2: "\<forall>ilon\<in>set (where_lon g). ilon < ?n1"
    and b3: "\<forall>ip\<in>set (where_pres g). ip < ?n3"
    by (simp_all add: where_lat_def where_lon_def where_pres_def set_np_where)
  from loop_il_shaped [OF sh b1 b2 b3]
  obtain a where a: "fake_opd g = Inr a"
    and v: "\<And>i j k w. i < ?n1 \<Longrightarrow> j < ?n2 \<Longrightarrow> k < ?n3 \<Longrightarrow> w < ?n4 \<Longrightarrow>
              a ! i ! j ! k ! w =
                (if i \<in> set (where_lon g) \<and> j \<in> set (where_lat g) \<and> k \<in> set (where_pres g)
                 then 10 else cld_shape g ! i ! j ! k ! w)"
    unfolding fake_opd_def by blast
  have z: "\<And>i j k w. i < ?n1 \<Longrightarrow> j < ?n2 \<Longrightarrow> k < ?n3 \<Longrightarrow> w < ?n4 \<Longrightarrow>
             cld_shape g ! i ! j ! k ! w = 0"
    by (simp add: cld_shape_def zeros_nth)
  have box: "\<And>i j k. i < ?n1 \<Longrightarrow> j < ?n2 \<Longrightarrow> k < ?n3 \<Longrightarrow>
      (i \<in> set (where_lon g) \<and> j \<in> set (where_lat g) \<and> k \<in> set (where_pres g))
        = in_box (lon g ! i) (lat g ! j) (cld_pres g ! k)"
    by (auto simp: where_lat_def where_lon_def where_pres_def set_np_where in_box_def)
  show ?thesis
    using a by (auto simp: v z box)
qed

lemma ds_cld_coords:
  "ds_cld g = Inr ds \<Longrightarrow>
     cld_lon ds = lon g \<and> cld_lat ds = lat g \<and> cld_pressure ds = cld_pres g \<and> cld_wno ds = wno_grid"
  by (auto simp: ds_cld_def split: sum.splits)

text \<open>
  Claim C2.  The cloud dataset of cell 24 is built without an error, and at every grid
  point (lon, lat, pressure, wavenumber) of it the optical depth \<open>opd\<close> is 10 when the
  latitude is strictly between -50 and 50, the longitude strictly between -90 and 0 and
  the pressure strictly between the floats \<^verbatim>\<open>.00001\<close> and \<^verbatim>\<open>0.01\<close>, and 0 otherwise;
  the asymmetry \<open>g0\<close> is 0.5 and the single-scattering albedo \<open>w0\<close> is the float
  \<^verbatim>\<open>0.9\<close> at every grid point.
\<close>

theorem cloud_box:
  "\<exists>ds. ds_cld g = Inr ds \<and>
     (\<forall>i j k w. i < length (cld_lon ds) \<longrightarrow> j < length (cld_lat ds) \<longrightarrow>
          k < length (cld_pressure ds) \<longrightarrow> w < length (cld_wno ds) \<longrightarrow>
        opd ds ! i ! j ! k ! w =
          (if in_box (cld_lon ds ! i) (cld_lat ds ! j) (cld_pressure ds ! k) then 10 else 0) \<and>
        g0 ds ! i ! j ! k ! w = 0.5 \<and>
        w0 ds ! i ! j ! k ! w = py_0_9)"
proof -
  let ?n1 = "length (lon g)" and ?n2 = "length (lat g)" and ?n3 = "length (cld_pres g)"
    and ?n4 = "length wno_grid"
  have sh: "shaped ?n1 ?n2 ?n3 ?n4 (cld_shape g)"
    by (simp add: cld_shape_def shaped_zeros)
  from fake_opd_box [of g]
  obtain a where a: "fake_opd g = Inr a"
    and v: "\<And>i j k w. i < ?n1 \<Longrightarrow> j < ?n2 \<Longrightarrow> k < ?n3 \<Longrightarrow> w < ?n4 \<Longrightarrow>
              a ! i ! j ! k ! w =
                (if in_box (lon g ! i) (lat g ! j) (cld_pres g ! k) then 10 else 0)"
    by blast
  have z: "\<And>i j k w. i < ?n1 \<Longrightarrow> j < ?n2 \<Longrightarrow> k < ?n3 \<Longrightarrow> w < ?n4 \<Longrightarrow>
             cld_shape g ! i ! j ! k ! w = 0"
    by (simp add: cld_shape_def zeros_nth)
  show ?thesis
    using a
    by (auto simp: ds_cld_def v z fake_asymmetry_g0_def fake_ssa_w0_def
        scalar_plus4_nth [OF sh] fl64_literals)
qed


theorem cloud_box_witness:
  "\<exists>ds. ds_cld gcm_example = Inr ds \<and>
     opd ds ! 1 ! 1 ! 1 ! 0 = 10 \<and> opd ds ! 1 ! 1 ! 2 ! 0 = 0 \<and> opd ds ! 0 ! 1 ! 1 ! 9 = 0 \<and>
     g0 ds ! 1 ! 1 ! 1 ! 0 = 0.5 \<and> w0 ds ! 2 ! 0 ! 0 ! 3 = py_0_9"
proof -
  from cloud_box [of gcm_example] obtain ds where ds: "ds_cld gcm_example = Inr ds"
    and v: "\<And>i j k w. i < length (cld_lon ds) \<Longrightarrow> j < length (cld_lat ds) \<Longrightarrow>
          k < length (cld_pressure ds) \<Longrightarrow> w < length (cld_wno ds) \<Longrightarrow>
        opd ds ! i ! j ! k ! w =
          (if in_box (cld_lon ds ! i) (cld_lat ds ! j) (cld_pressure ds ! k) then 10 else 0) \<and>
        g0 ds ! i ! j ! k ! w = 0.5 \<and>
        w0 ds ! i ! j ! k ! w = py_0_9"
    by blast
  from ds_cld_coords [OF ds]
  have c: "cld_lon ds = [- 100, - 45, 10]" "cld_lat ds = [- 60, 0]"
    "cld_pressure ds = [1 / 10 ^ 6, 1 / 1000, 1]" "length (cld_wno ds) = 10"
    by (simp_all add: gcm_example_def cld_pres_def length_wno_grid)
  have "opd ds ! 1 ! 1 ! 1 ! 0 = 10"
    using v [of 1 1 1 0] by (simp add: c in_box_def py_0_01_def py_0_00001_def)
  moreover have "opd ds ! 1 ! 1 ! 2 ! 0 = 0"
    using v [of 1 1 2 0] by (simp add: c in_box_def py_0_01_def py_0_00001_def)
  moreover have "opd ds ! 0 ! 1 ! 1 ! 9 = 0"
    using v [of 0 1 1 9] by (simp add: c in_box_def py_0_01_def py_0_00001_def)
  moreover have "g0 ds ! 1 ! 1 ! 1 ! 0 = 0.5"
    using v [of 1 1 1 0] by (simp add: c)
  moreover have "w0 ds ! 2 ! 0 ! 0 ! 3 = py_0_9"
    using v [of 2 0 0 3] by (simp add: c)
  ultimately show ?thesis using ds by blast
qed


lemma length_np_linspace: "length (np_linspace start stop num) = num"
  by (simp add: np_linspace_def Let_def)

lemma upt_9: "[0..<9] = [0, 1, 2, 3, 4, 5, 6, 7, 8]"
  by (simp add: upt_rec numeral_nat)

lemma wno_grid_samples:
  "wno_grid =
     [33333, 4224934513708601 / 2 ^ 37, 1934308195667513 / 2 ^ 36, 7024596537922901 / 2 ^ 38,
      6311960293175751 / 2 ^ 38, 5599324048428601 / 2 ^ 38, 2443343901840725 / 2 ^ 37,
      1043512889733575 / 2 ^ 36, 1730707657093575 / 2 ^ 37, 10000]"
  by (simp add: wno_grid_def np_linspace_def upt_9 fl64_eval)

lemma wno_grid_near_linear:
  assumes "i < 10"
  shows "\<bar>wno_grid ! i - (33333 - real i * (23333 / 9))\<bar> \<le> 1 / 2 ^ 38"
proof -
  from assms have "i = 0 \<or> i = 1 \<or> i = 2 \<or> i = 3 \<or> i = 4 \<or> i = 5 \<or> i = 6 \<or> i = 7 \<or>
      i = 8 \<or> i = 9"
    by arith
  then show ?thesis
    by (elim disjE) (simp_all add: wno_grid_samples)
qed

text \<open>
  Claim C10, as amended.  The grid of the cloud dataset comes from the GCM's: the same
  longitudes and latitudes, the pressure levels without the last one (one level fewer
  when there is any), and the ten binary64 wavenumbers of
  \<^verbatim>\<open>np.linspace(33333,1e4,10)\<close>: the first is 33333, the last is 10000, and each is
  within \<open>2^(-38)\<close> of the linearly spaced value \<open>33333 - i * 23333/9\<close>.
\<close>

theorem cloud_grid:
  "\<exists>ds. ds_cld g = Inr ds \<and>
     cld_lon ds = lon g \<and> cld_lat ds = lat g \<and>
     cld_pressure ds = butlast (pressure g) \<and>
     (pressure g \<noteq> [] \<longrightarrow> pressure g = cld_pressure ds @ [last (pressure g)] \<and>
        Suc (length (cld_pressure ds)) = length (pressure g)) \<and>
     cld_wno ds =
       [33333, 4224934513708601 / 2 ^ 37, 1934308195667513 / 2 ^ 36,
        7024596537922901 / 2 ^ 38, 6311960293175751 / 2 ^ 38, 5599324048428601 / 2 ^ 38,
        2443343901840725 / 2 ^ 37, 1043512889733575 / 2 ^ 36, 1730707657093575 / 2 ^ 37,
        10000] \<and>
     length (cld_wno ds) = 10 \<and> hd (cld_wno ds) = 33333 \<and> last (cld_wno ds) = 10000 \<and>
     (\<forall>i<10. \<bar>cld_wno ds ! i - (33333 - real i * (23333 / 9))\<bar> \<le> 1 / 2 ^ 38)"
proof -
  from fake_opd_box [of g] obtain a where "fake_opd g = Inr a" by blast
  then obtain ds where ds: "ds_cld g = Inr ds" by (simp add: ds_cld_def)
  note c = ds_cld_coords [OF ds]
  from c have w: "cld_wno ds = wno_grid" by simp
  have 1: "cld_pressure ds = butlast (pressure g)"
    using c by (simp add: cld_pres_def)
  have 2: "pressure g \<noteq> [] \<longrightarrow> pressure g = cld_pressure ds @ [last (pressure g)] \<and>
        Suc (length (cld_pressure ds)) = length (pressure g)"
    by (auto simp: 1)
  have 3: "length (cld_wno ds) = 10" "hd (cld_wno ds) = 33333" "last (cld_wno ds) = 10000"
    by (simp_all add: w wno_grid_samples)
  have 4: "\<forall>i<10. \<bar>cld_wno ds ! i - (33333 - real i * (23333 / 9))\<bar> \<le> 1 / 2 ^ 38"
    unfolding w using wno_grid_near_linear by blast
  from ds c 1 2 3 4 wno_grid_samples [folded w] show ?thesis
    by blast
qed

theorem cloud_grid_witness:
  "\<exists>ds. ds_cld gcm_example = Inr ds \<and> cld_lon ds = [- 100, - 45, 10] \<and>
     cld_pressure ds = [1 / 10 ^ 6, 1 / 1000, 1] \<and> length (cld_pressure ds) = 3 \<and>
     cld_wno ds ! 1 = 4224934513708601 / 2 ^ 37 \<and>
     \<bar>cld_wno ds ! 1 - (33333 - 23333 / 9)\<bar> \<le> 1 / 2 ^ 38"
proof -
  from cloud_grid [of gcm_example] obtain ds where ds: "ds_cld gcm_example = Inr ds"
    and c: "cld_lon ds = lon gcm_example" "cld_pressure ds = butlast (pressure gcm_example)"
    and w: "cld_wno ds =
       [33333, 4224934513708601 / 2 ^ 37, 1934308195667513 / 2 ^ 36,
        7024596537922901 / 2 ^ 38, 6311960293175751 / 2 ^ 38, 5599324048428601 / 2 ^ 38,
        2443343901840725 / 2 ^ 37, 1043512889733575 / 2 ^ 36, 1730707657093575 / 2 ^ 37,
        10000]"
    and near: "\<forall>i<10. \<bar>cld_wno ds ! i - (33333 - real i * (23333 / 9))\<bar> \<le> 1 / 2 ^ 38"
    by blast
  from near [rule_format, of 1]
  have "\<bar>cld_wno ds ! 1 - (33333 - real 1 * (23333 / 9))\<bar> \<le> 1 / 2 ^ 38"
    by simp
  then have n1: "\<bar>cld_wno ds ! 1 - (33333 - 23333 / 9)\<bar> \<le> 1 / 2 ^ 38"
    by simp
  have w1: "cld_wno ds ! 1 = 4224934513708601 / 2 ^ 37"
    by (simp add: w)
  have p: "cld_lon ds = [- 100, - 45, 10]" "cld_pressure ds = [1 / 10 ^ 6, 1 / 1000, 1]"
    by (simp_all add: c gcm_example_def)
  then have "length (cld_pressure ds) = 3" by simp
  with ds p w1 n1 show ?thesis by blast
qed

text \<open>
  The claim as it was stated fails: the stored wavenumbers are rounded to binary64, so
  the second one is not \<open>33333 - 23333/9\<close> and the steps between them are not all equal.
\<close>

theorem cloud_grid_counterexample:
  "wno_grid ! 1 \<noteq> 33333 - 23333 / 9 \<and>
   wno_grid ! 3 - wno_grid ! 2 \<noteq> wno_grid ! 2 - wno_grid ! 1"
  by (simp add: wno_grid_samples)

subsection \<open>The order of the library calls\<close>

lemmas cell_defs =
  cell_1_def cell_3_def cell_4_def cell_6_def cell_7_def cell_9_def cell_11_def cell_15_def
  cell_18_def cell_20_def cell_22_def cell_24_def cell_26_def cell_28_def cell_30_def
  cell_31_def cell_33_def cell_35_def

lemma trace_unfold:
  "trace n m =
     concat (map calls_of (cell_1 @ cell_3 @ cell_4 @ cell_6 @ cell_7 @ cell_9 @ cell_11 @ cell_15 @ cell_18 @ cell_20)) @
     replicate n regrid_22 @
     concat (map calls_of (tl (cell_22 n) @ cell_24 @ cell_26 @ cell_28 @ cell_30 @ cell_31 @ cell_33)) @
     replicate m regrid_35 @
     concat (map calls_of (tl (cell_35 m)))"
  by (simp add: trace_def notebook_def cell_22_def cell_35_def lib_call_def concat_replicate_single regrid_22_def regrid_35_def)

lemma filter_replicate_False: "\<not> P x \<Longrightarrow> filter P (replicate n x) = []"
  by (induction n) auto








text \<open>
  Claim C5.  The notebook calls \<^verbatim>\<open>clouds_4d\<close> once, in cell 28, on the inputs object
  of the cloudy case; before it that object has been created, given its geometry and
  passed through \<^verbatim>\<open>atmosphere_4d\<close>; and no call on the inputs object of the
  cloud-free case is a \<^verbatim>\<open>clouds_4d\<close>.
\<close>

theorem clouds_after_atmosphere:
  "filter (\<lambda>c. callee c = Clouds_4d) (trace n m) =
     [\<lparr> cell = 28, callee = Clouds_4d, receiver = ''case_3d_clouds'',
        arguments = [''ds_cld''], binds = [], n_cpu = None \<rparr>] \<and>
   map callee (takeWhile (\<lambda>c. callee c \<noteq> Clouds_4d) (on_object ''case_3d_clouds'' (trace n m))) =
     [Inputs, Phase_curve_geometry, Atmosphere_4d] \<and>
   filter (\<lambda>c. callee c = Clouds_4d) (on_object ''case_3d'' (trace n m)) = []"
proof -
  have 1: "filter (\<lambda>c. callee c = Clouds_4d) (trace n m) =
     [\<lparr> cell = 28, callee = Clouds_4d, receiver = ''case_3d_clouds'',
        arguments = [''ds_cld''], binds = [], n_cpu = None \<rparr>]"
    by (simp add: trace_unfold cell_defs lib_call_def filter_replicate_False regrid_22_def regrid_35_def)
  have 2: "map callee (takeWhile (\<lambda>c. callee c \<noteq> Clouds_4d) (on_object ''case_3d_clouds'' (trace n m))) =
     [Inputs, Phase_curve_geometry, Atmosphere_4d]"
    by (simp add: trace_unfold on_object_def cell_defs lib_call_def filter_replicate_False regrid_22_def regrid_35_def)
  have 3: "filter (\<lambda>c. callee c = Clouds_4d) (on_object ''case_3d'' (trace n m)) = []"
    by (simp add: trace_unfold on_object_def cell_defs lib_call_def filter_replicate_False regrid_22_def regrid_35_def)
  show ?thesis using 1 2 3 by blast
qed

text \<open>
  Claim C7.  The two calls of the method \<^verbatim>\<open>phase_curve\<close> pass \<^verbatim>\<open>n_cpu = 3\<close>, no
  other call passes a worker count, and none of the modules the notebook imports is one
  of those that start threads or processes, lock, schedule or cancel.
\<close>

theorem worker_count:
  "map (\<lambda>c. (receiver c, n_cpu c)) (filter (\<lambda>c. callee c = Phase_curve) (trace n m)) =
     [(''case_3d'', Some 3), (''case_3d_clouds'', Some 3)] \<and>
   map callee (filter (\<lambda>c. n_cpu c \<noteq> None) (trace n m)) = [Phase_curve, Phase_curve] \<and>
   filter (\<lambda>x. x \<in> set concurrency_modules) notebook_imports = []"
proof -
  have 1: "map (\<lambda>c. (receiver c, n_cpu c)) (filter (\<lambda>c. callee c = Phase_curve) (trace n m)) =
     [(''case_3d'', Some 3), (''case_3d_clouds'', Some 3)]"
    by (simp add: trace_unfold cell_defs lib_call_def filter_replicate_False regrid_22_def regrid_35_def)
  have 2: "map callee (filter (\<lambda>c. n_cpu c \<noteq> None) (trace n m)) = [Phase_curve, Phase_curve]"
    by (simp add: trace_unfold cell_defs lib_call_def filter_replicate_False regrid_22_def regrid_35_def)
  have 3: "filter (\<lambda>x. x \<in> set concurrency_modules) notebook_imports = []"
    by (simp add: concurrency_modules_def notebook_imports_def)
  show ?thesis using 1 2 3 by blast
qed

subsection \<open>Exceptions\<close>

lemma then_do_Inr [simp]: "then_do (Inr st) f = f st"
  by (simp add: then_do_def)

lemma then_do_Inl [simp]: "then_do (Inl err) f = Inl err"
  by (simp add: then_do_def)

lemma then_do_assoc: "then_do (then_do r f) g = then_do r (\<lambda>st. then_do (f st) g)"
  by (cases r) simp_all

lemma run_calls_append:
  "run_calls lib (xs @ ys) st = then_do (run_calls lib xs st) (run_calls lib ys)"
proof (induction xs arbitrary: st)
  case Nil
  show ?case by simp
next
  case (Cons c cs)
  show ?case
    by (cases "do_call lib c st") (simp_all add: Cons.IH)
qed

lemma in_sequence_append:
  "in_sequence (fs @ gs) st = then_do (in_sequence fs st) (in_sequence gs)"
proof (induction fs arbitrary: st)
  case Nil
  show ?case by simp
next
  case (Cons f fs)
  show ?case
    by (cases "f st") (simp_all add: Cons.IH)
qed

lemma repeated_run_calls:
  "repeated n (run_calls lib cs) st = run_calls lib (concat (replicate n cs)) st"
proof (induction n arbitrary: st)
  case 0
  show ?case by simp
next
  case (Suc n)
  show ?case
    by (cases "run_calls lib cs st") (simp_all add: run_calls_append Suc.IH)
qed

lemma exec_handler_free:
  "handler_free p \<Longrightarrow> exec lib p st = run_calls lib (calls_of p) st"
proof (induction p arbitrary: st)
  case (Call c)
  show ?case by (cases "do_call lib c st") simp_all
next
  case (For n body)
  have body: "in_sequence (map (exec lib) bs) st = run_calls lib (concat (map calls_of bs)) st"
    if "set bs \<subseteq> set body" for bs st
    using that
  proof (induction bs arbitrary: st)
    case Nil
    show ?case by simp
  next
    case (Cons b bs)
    from Cons.prems For.prems have hb: "handler_free b" and b: "b \<in> set body"
      by (auto simp: list_all_iff)
    have "exec lib b st = run_calls lib (calls_of b) st"
      by (rule For.IH [OF b hb])
    moreover have "\<And>st'. in_sequence (map (exec lib) bs) st' = run_calls lib (concat (map calls_of bs)) st'"
      using Cons.IH Cons.prems by simp
    ultimately show ?case
      by (cases "run_calls lib (calls_of b) st") (simp_all add: run_calls_append)
  qed
  have "in_sequence (map (exec lib) body) = run_calls lib (concat (map calls_of body))"
    using body [of body] by auto
  then show ?case
    by (simp add: repeated_run_calls)
next
  case (Try body handler)
  then show ?case by simp
qed

lemma block_handler_free:
  "list_all handler_free ps \<Longrightarrow>
   in_sequence (map (exec lib) ps) st = run_calls lib (concat (map calls_of ps)) st"
proof (induction ps arbitrary: st)
  case Nil
  show ?case by simp
next
  case (Cons p ps)
  then have "exec lib p st = run_calls lib (calls_of p) st"
    by (simp add: exec_handler_free)
  moreover have "\<And>st'. in_sequence (map (exec lib) ps) st' = run_calls lib (concat (map calls_of ps)) st'"
    using Cons by simp
  ultimately show ?case
    by (cases "run_calls lib (calls_of p) st") (simp_all add: run_calls_append)
qed

lemma run_calls_log:
  "run_calls lib cs (s, tr0) = Inr (s', tr1) \<Longrightarrow> tr1 = tr0 @ cs"
proof (induction cs arbitrary: s tr0)
  case Nil
  then show ?case by simp
next
  case (Cons c cs)
  show ?case
  proof (cases "lib s c")
    case (Inl e)
    with Cons.prems show ?thesis by (simp add: do_call_def)
  next
    case (Inr b)
    with Cons.prems have "run_calls lib cs (b, tr0 @ [c]) = Inr (s', tr1)"
      by (simp add: do_call_def)
    from Cons.IH [OF this] show ?thesis by simp
  qed
qed

lemma run_calls_first_failure:
  assumes "run_calls lib pre (s, tr0) = Inr (s', tr1)" and "lib s' c = Inl e"
  shows "run_calls lib (pre @ c # post) (s, tr0) = Inl (e, (s', tr0 @ pre @ [c]))"
  using assms run_calls_log [OF assms(1)]
  by (simp add: run_calls_append do_call_def)

lemma notebook_handler_free: "list_all handler_free (notebook n m)"
  by (simp add: notebook_def cell_defs lib_call_def)

text \<open>
  Claim C6.  No statement of the notebook is a \<^verbatim>\<open>try\<close>, and so, whatever the
  libraries do: when the calls before some call of the notebook succeed and that call
  raises an exception, the run of the notebook ends with this exception, and the calls
  made are those up to the failing one and no more.
\<close>

theorem no_error_handling:
  "list_all handler_free (notebook n m) \<and>
   (\<forall>pre c post s' e.
      trace n m = pre @ c # post \<and> run_calls lib pre (s, []) = Inr (s', pre) \<and> lib s' c = Inl e
        \<longrightarrow> run_notebook lib s n m = Inl (e, (s', pre @ [c])))"
proof -
  have "run_notebook lib s n m = run_calls lib (trace n m) (s, [])"
    unfolding run_notebook_def trace_def
    by (rule block_handler_free [OF notebook_handler_free])
  then show ?thesis
    using run_calls_first_failure [of lib _ s "[]"] notebook_handler_free
    by auto
qed


lemma trace_2_2_split:
  "trace 2 2 = take 8 (trace 2 2) @ (trace 2 2 ! 8) # drop 9 (trace 2 2)"
proof -
  have "8 < length (trace 2 2)"
    by (simp add: trace_unfold cell_defs lib_call_def)
  then show ?thesis
    using id_take_nth_drop [of 8 "trace 2 2"] by simp
qed

lemma trace_2_2_prefix:
  "take 8 (trace 2 2) = concat (map calls_of (cell_1 @ cell_3 @ cell_4 @ cell_6 @ cell_7 @ cell_9))"
  "trace 2 2 ! 8 = \<lparr> cell = 11, callee = Atmosphere_4d, receiver = ''case_3d'',
                       arguments = [''all_gcm''], binds = [], n_cpu = None \<rparr>"
  by (simp_all add: trace_unfold cell_defs lib_call_def)

theorem no_error_handling_witness:
  "run_notebook flaky_library 0 2 2 =
     Inl (LibraryError ''atmosphere_4d'',
          (8, concat (map calls_of (cell_1 @ cell_3 @ cell_4 @ cell_6 @ cell_7 @ cell_9)) @
              [\<lparr> cell = 11, callee = Atmosphere_4d, receiver = ''case_3d'',
                 arguments = [''all_gcm''], binds = [], n_cpu = None \<rparr>]))"
proof -
  have run: "run_calls flaky_library (take 8 (trace 2 2)) (0, []) = Inr (8, take 8 (trace 2 2))"
    unfolding trace_2_2_prefix
    by (simp add: cell_defs lib_call_def do_call_def flaky_library_def)
  have fail: "flaky_library 8 (trace 2 2 ! 8) = Inl (LibraryError ''atmosphere_4d'')"
    unfolding trace_2_2_prefix by (simp add: flaky_library_def)
  from no_error_handling [of 2 2 flaky_library 0] trace_2_2_split run fail
  have "run_notebook flaky_library 0 2 2 =
          Inl (LibraryError ''atmosphere_4d'', (8, take 8 (trace 2 2) @ [trace 2 2 ! 8]))"
    by blast
  then show ?thesis
    unfolding trace_2_2_prefix .
qed

subsection \<open>The phase grid\<close>

lemma upt_7: "[0..<7] = [0, 1, 2, 3, 4, 5, 6]"
  by (simp add: upt_rec numeral_nat)

lemma phase_grid_samples:
  "phase_grid geometry_cell_9 =
     [0, 126325674143365 / 2 ^ 47, 126325674143365 / 2 ^ 46, 378977022430095 / 2 ^ 47,
      126325674143365 / 2 ^ 45, 631628370716825 / 2 ^ 47, 378977022430095 / 2 ^ 46,
      884279719003555 / 2 ^ 47]"
  by (simp add: geometry_cell_9_def np_linspace_def np_pi_def upt_7 fl64_eval)

text \<open>
  Claim C8.  Cells 9 and 28 pass the same geometry: the calculation \<^verbatim>\<open>'reflected'\<close>,
  six Gauss and six Chebyshev angles, and the phase grid \<^verbatim>\<open>np.linspace(0, 2*np.pi, 8)\<close>
  of eight angles that starts at 0, ends at \<^verbatim>\<open>2*np.pi\<close> and goes in seven equal
  steps (a seventh of \<^verbatim>\<open>2*np.pi\<close> and its multiples are binary64 numbers, so no
  sample is rounded).
\<close>

theorem same_phase_grid:
  "geometry_cell_9 = geometry_cell_28 \<and>
   length (phase_grid geometry_cell_9) = 8 \<and>
   hd (phase_grid geometry_cell_9) = 0 \<and>
   last (phase_grid geometry_cell_9) = 2 * np_pi \<and>
   map (\<lambda>i. phase_grid geometry_cell_9 ! Suc i - phase_grid geometry_cell_9 ! i) [0..<7] =
     replicate 7 (2 * np_pi / 7) \<and>
   calculation geometry_cell_9 = ''reflected'' \<and>
   num_gangle geometry_cell_9 = 6 \<and> num_tangle geometry_cell_9 = 6"
proof -
  have 1: "geometry_cell_9 = geometry_cell_28"
    by (simp add: geometry_cell_9_def geometry_cell_28_def)
  have 2: "length (phase_grid geometry_cell_9) = 8"
    by (simp add: phase_grid_samples)
  have 3: "hd (phase_grid geometry_cell_9) = 0"
    by (simp add: phase_grid_samples)
  have 4: "last (phase_grid geometry_cell_9) = 2 * np_pi"
    by (simp add: phase_grid_samples np_pi_def)
  have 5: "map (\<lambda>i. phase_grid geometry_cell_9 ! Suc i - phase_grid geometry_cell_9 ! i) [0..<7] =
     replicate 7 (2 * np_pi / 7)"
    unfolding upt_7 by (simp add: phase_grid_samples np_pi_def numeral_nat)
  have 6: "calculation geometry_cell_9 = ''reflected'' \<and>
   num_gangle geometry_cell_9 = 6 \<and> num_tangle geometry_cell_9 = 6"
    by (simp add: geometry_cell_9_def)
  show ?thesis using 1 2 3 4 5 6 by blast
qed

subsection \<open>The two names of the atmosphere dataset\<close>




lemma bind_names_frame [simp]:
  "heap (bind_names xs v st) = heap st" "received (bind_names xs v st) = received st"
  by (simp_all add: bind_names_def)














subsection \<open>The spectra of each phase\<close>

lemma spectra_loop_total:
  assumes "\<forall>k\<in>set ks. \<exists>sp. map_of allout k = Some sp \<and>
             sp ''wavenumber'' = Some (wn k) \<and> sp ''fpfs_reflected'' = Some (fp k)"
  shows "spectra_loop regrid allout ks (wno, fpfs, legend) =
           Inr (wno @ map (\<lambda>k. fst (regrid (wn k) (fp k))) ks,
                fpfs @ map (\<lambda>k. map (\<lambda>x. fl64 (x * 1000000)) (snd (regrid (wn k) (fp k)))) ks,
                legend @ map legend_entry ks)"
  using assms
proof (induction ks arbitrary: wno fpfs legend)
  case Nil
  show ?case by simp
next
  case (Cons k ks)
  from Cons.prems obtain sp where sp: "map_of allout k = Some sp"
    "sp ''wavenumber'' = Some (wn k)" "sp ''fpfs_reflected'' = Some (fp k)"
    by auto
  from Cons.prems have rest: "\<forall>k\<in>set ks. \<exists>sp. map_of allout k = Some sp \<and>
             sp ''wavenumber'' = Some (wn k) \<and> sp ''fpfs_reflected'' = Some (fp k)"
    by simp
  show ?case
    by (simp add: sp Cons.IH [OF rest] split: prod.splits)
qed

lemma map_of_phase_curve:
  "k \<in> set grid \<Longrightarrow>
   map_of (phase_curve spectrum_at grid) k =
     Some [''wavenumber'' \<mapsto> fst (spectrum_at k), ''fpfs_reflected'' \<mapsto> snd (spectrum_at k)]"
  by (induction grid) (auto simp: phase_curve_def)

lemma keys_phase_curve: "map fst (phase_curve spectrum_at grid) = grid"
  by (simp add: phase_curve_def comp_def)

text \<open>
  Claim C4.  The result of \<^verbatim>\<open>phase_curve\<close> is a dictionary whose keys are the angles
  of the phase grid and whose values each hold a \<^verbatim>\<open>'wavenumber'\<close> and a
  \<^verbatim>\<open>'fpfs_reflected'\<close> array; on it the loop of cells 22 and 35 raises no KeyError
  and appends, for every key in order, one regridded wavenumber array, one flux array
  in parts per million and the legend entry \<^verbatim>\<open>str(int(iphase*180/np.pi))\<close>.
\<close>

theorem phase_dict_consumed:
  assumes "distinct grid"
  shows "map fst (phase_curve spectrum_at grid) = grid \<and>
    list_all (\<lambda>(iphase, sp). sp ''wavenumber'' = Some (fst (spectrum_at iphase)) \<and>
                sp ''fpfs_reflected'' = Some (snd (spectrum_at iphase)))
      (phase_curve spectrum_at grid) \<and>
    phase_spectra regrid (phase_curve spectrum_at grid) =
      Inr (map (\<lambda>k. fst (regrid (fst (spectrum_at k)) (snd (spectrum_at k)))) grid,
           map (\<lambda>k. map (\<lambda>x. fl64 (x * 1000000))
                  (snd (regrid (fst (spectrum_at k)) (snd (spectrum_at k))))) grid,
           map legend_entry grid)"
proof -
  have 1: "list_all (\<lambda>(iphase, sp). sp ''wavenumber'' = Some (fst (spectrum_at iphase)) \<and>
                sp ''fpfs_reflected'' = Some (snd (spectrum_at iphase)))
      (phase_curve spectrum_at grid)"
    by (simp add: phase_curve_def list_all_iff)
  have "\<forall>k\<in>set grid. \<exists>sp. map_of (phase_curve spectrum_at grid) k = Some sp \<and>
          sp ''wavenumber'' = Some (fst (spectrum_at k)) \<and>
          sp ''fpfs_reflected'' = Some (snd (spectrum_at k))"
    by (simp add: map_of_phase_curve)
  from spectra_loop_total [OF this, of regrid "[]" "[]" "[]"]
  have 2: "phase_spectra regrid (phase_curve spectrum_at grid) =
      Inr (map (\<lambda>k. fst (regrid (fst (spectrum_at k)) (snd (spectrum_at k)))) grid,
           map (\<lambda>k. map (\<lambda>x. fl64 (x * 1000000))
                  (snd (regrid (fst (spectrum_at k)) (snd (spectrum_at k))))) grid,
           map legend_entry grid)"
    by (simp add: phase_spectra_def keys_phase_curve)
  show ?thesis
    using keys_phase_curve [of spectrum_at grid] 1 2 by blast
qed

lemma legend_0: "legend_entry 0 = ''0''"
  by (simp add: legend_entry_def fl64_eval py_int_def str_int_def)

lemma legend_2pi: "legend_entry (2 * np_pi) = ''360''"
  by (simp add: legend_entry_def fl64_eval py_int_def str_int_def np_pi_def)

theorem phase_dict_consumed_witness:
  "distinct [0, 2 * np_pi] \<and>
   phase_spectra (\<lambda>w f. (w, f)) (phase_curve (\<lambda>p. ([2, 1], [p / 2 ^ 60, 0])) [0, 2 * np_pi]) =
     Inr ([[2, 1], [2, 1]], [[0, 0], [6746518852261009 / 2 ^ 90, 0]], [''0'', ''360''])"
proof -
  have d: "distinct [0, 2 * np_pi]"
    by (simp add: np_pi_def)
  have "fl64 (2 * np_pi / 2 ^ 60 * 1000000) = 6746518852261009 / 2 ^ 90"
    by (simp add: fl64_eval np_pi_def)
  then show ?thesis
    using phase_dict_consumed [OF d, of "\<lambda>p. ([2, 1], [p / 2 ^ 60, 0])" "\<lambda>w f. (w, f)"] d
    by (simp add: legend_0 legend_2pi fl64_def)
qed

end
